theory Spec2Isabelle
  imports Complex_Main "HOL-Library.Word" "HOL-Library.Sublist"
begin

unbundle bit_operations_syntax

section \<open>The Claid.ai proxy function (netlify/functions/claid-proxy.ts)\<close>

text \<open>
  The handler of \<^verbatim>\<open>claid-proxy.ts\<close> is embedded as a pure function from an
  environment and an event to an outcome. The outcome holds the response the handler
  returns, the list of outbound requests it handed to \<^verbatim>\<open>fetch\<close> and the lines
  it wrote with \<^verbatim>\<open>console.error\<close>. Every exception of the source is a value
  of \<open>js_error\<close>, and the \<^verbatim>\<open>try\<close>/\<^verbatim>\<open>catch\<close> of the source is a case
  distinction on it.

  JavaScript strings are modelled as \<open>string\<close>, buffers as lists of bytes.
\<close>

subsection \<open>JavaScript values\<close>

type_synonym byte = "8 word"

text \<open>
  A JavaScript number is an IEEE double. Every finite double is a rational number, so a
  finite non-zero or positive-zero number is \<open>Finite q\<close>; the remaining doubles are
  listed.
\<close>

datatype jsnum = Finite rat | NegZero | PosInf | NegInf | NaN

text \<open>
  The values \<^verbatim>\<open>JSON.parse\<close> can return. An object is the list of its own
  properties in enumeration order.
\<close>

datatype js_value =
    JNull
  | JBool bool
  | JNum jsnum
  | JStr string
  | JArr "js_value list"
  | JObj "(string \<times> js_value) list"

datatype js_error = SyntaxError | TypeError | FetchError

text \<open>ToBoolean, as \<^verbatim>\<open>!x\<close> and \<^verbatim>\<open>x || y\<close> apply it.\<close>

fun truthy :: "js_value \<Rightarrow> bool" where
  "truthy JNull = False"
| "truthy (JBool b) = b"
| "truthy (JNum n) = (n \<noteq> Finite 0 \<and> n \<noteq> NegZero \<and> n \<noteq> NaN)"
| "truthy (JStr s) = (s \<noteq> [])"
| "truthy (JArr xs) = True"
| "truthy (JObj kvs) = True"

text \<open>A variable that may be \<^verbatim>\<open>undefined\<close> is an option; \<^verbatim>\<open>undefined\<close> is falsy.\<close>

fun truthy_opt :: "js_value option \<Rightarrow> bool" where
  "truthy_opt None = False"
| "truthy_opt (Some v) = truthy v"

text \<open>
  Reading the property \<open>k\<close> in the destructuring pattern
  \<^verbatim>\<open>const { imageBase64, instructions } = v\<close>. Destructuring \<^verbatim>\<open>null\<close> throws a
  TypeError. A boolean, a number, a string or an array has no property of either of the
  two names the handler reads, on itself or on its prototype, so the read gives
  \<^verbatim>\<open>undefined\<close>.
\<close>

fun get_property :: "js_value \<Rightarrow> string \<Rightarrow> js_error + js_value option" where
  "get_property JNull k = Inl TypeError"
| "get_property (JObj kvs) k = Inr (map_of kvs k)"
| "get_property v k = Inr None"

subsection \<open>String.prototype.split and Array.prototype.pop\<close>

text \<open>
  \<open>split_aux d ds acc s\<close> scans \<open>s\<close> from the left for the separator \<open>d # ds\<close>;
  \<open>acc\<close> is the piece read so far, reversed. After a match the scan goes on behind
  the separator.
\<close>

fun split_aux :: "char \<Rightarrow> string \<Rightarrow> string \<Rightarrow> string \<Rightarrow> string list" where
  "split_aux d ds acc [] = [rev acc]"
| "split_aux d ds acc (c # cs) =
     (if prefix (d # ds) (c # cs)
      then rev acc # split_aux d ds [] (drop (length ds) cs)
      else split_aux d ds (c # acc) cs)"

text \<open>With the empty separator, \<^verbatim>\<open>split\<close> returns the characters one by one.\<close>

definition String_split :: "string \<Rightarrow> string \<Rightarrow> string list" where
  "String_split s sep =
     (case sep of [] \<Rightarrow> map (\<lambda>c. [c]) s | d # ds \<Rightarrow> split_aux d ds [] s)"

text \<open>\<^verbatim>\<open>pop\<close> returns the last element, \<^verbatim>\<open>undefined\<close> on the empty array.\<close>

definition Array_pop :: "'a list \<Rightarrow> 'a option" where
  "Array_pop xs = (if xs = [] then None else Some (last xs))"

subsection \<open>Base64: Buffer.toString('base64') and Buffer.from(s, 'base64')\<close>

definition base64_table :: string where
  "base64_table = ''ABCDEFGHIJKLMNOPQRSTUVWXYZabcdefghijklmnopqrstuvwxyz0123456789+/''"

definition b64 :: "byte \<Rightarrow> char" where
  "b64 x = base64_table ! unat x"

text \<open>
  The encoder: three bytes give four digits, a rest of one or two bytes is padded
  with \<open>=\<close>.
\<close>

fun base64_encode :: "byte list \<Rightarrow> string" where
  "base64_encode [] = []"
| "base64_encode [a] =
     [b64 (drop_bit 2 a), b64 (push_bit 4 (a AND 3)), CHR ''='', CHR ''='']"
| "base64_encode [a, b] =
     [b64 (drop_bit 2 a), b64 (push_bit 4 (a AND 3) OR drop_bit 4 b),
      b64 (push_bit 2 (b AND 15)), CHR ''='']"
| "base64_encode (a # b # c # rest) =
     [b64 (drop_bit 2 a), b64 (push_bit 4 (a AND 3) OR drop_bit 4 b),
      b64 (push_bit 2 (b AND 15) OR drop_bit 6 c), b64 (c AND 63)] @ base64_encode rest"

text \<open>
  The value of a Base64 digit. Node's decoder accepts the standard alphabet and the
  URL-safe one (\<open>-\<close> for 62, \<open>_\<close> for 63).
\<close>

definition unbase64 :: "char \<Rightarrow> byte option" where
  "unbase64 c =
     (let n = (of_char c :: nat) in
      if 65 \<le> n \<and> n \<le> 90 then Some (of_nat (n - 65))
      else if 97 \<le> n \<and> n \<le> 122 then Some (of_nat (n - 71))
      else if 48 \<le> n \<and> n \<le> 57 then Some (of_nat (n + 4))
      else if c = CHR ''+'' \<or> c = CHR ''-'' then Some 62
      else if c = CHR ''/'' \<or> c = CHR ''_'' then Some 63
      else None)"

text \<open>
  The decoder of \<^verbatim>\<open>Buffer.from(s, 'base64')\<close> is lenient and never throws: a
  character that is no Base64 digit is skipped, \<open>=\<close> ends the input, and an incomplete
  last group gives the bytes its digits determine.
\<close>

fun sextets :: "string \<Rightarrow> byte list" where
  "sextets [] = []"
| "sextets (c # cs) =
     (if c = CHR ''='' then []
      else case unbase64 c of None \<Rightarrow> sextets cs | Some v \<Rightarrow> v # sextets cs)"

fun group_bytes :: "byte list \<Rightarrow> byte list" where
  "group_bytes (a # b # c # d # rest) =
     [push_bit 2 a OR drop_bit 4 b, push_bit 4 (b AND 15) OR drop_bit 2 c,
      push_bit 6 (c AND 3) OR d] @ group_bytes rest"
| "group_bytes [a, b, c] =
     [push_bit 2 a OR drop_bit 4 b, push_bit 4 (b AND 15) OR drop_bit 2 c]"
| "group_bytes [a, b] = [push_bit 2 a OR drop_bit 4 b]"
| "group_bytes [a] = []"
| "group_bytes [] = []"

definition base64_decode :: "string \<Rightarrow> byte list" where
  "base64_decode s = group_bytes (sextets s)"

subsection \<open>JSON.stringify\<close>

definition hex_digit :: "nat \<Rightarrow> char" where
  "hex_digit n = ''0123456789abcdef'' ! n"

text \<open>
  QuoteJSONString escapes the quotation mark (0x22), the backslash (0x5C) and the
  control characters below 0x20; every other character stands for itself.
\<close>

definition quote_char :: "char \<Rightarrow> string" where
  "quote_char c =
     (if c = CHR 0x08 then [CHR 0x5C, CHR ''b'']
      else if c = CHR 0x09 then [CHR 0x5C, CHR ''t'']
      else if c = CHR 0x0A then [CHR 0x5C, CHR ''n'']
      else if c = CHR 0x0C then [CHR 0x5C, CHR ''f'']
      else if c = CHR 0x0D then [CHR 0x5C, CHR ''r'']
      else if c = CHR 0x22 then [CHR 0x5C, CHR 0x22]
      else if c = CHR 0x5C then [CHR 0x5C, CHR 0x5C]
      else if (of_char c :: nat) < 32
        then [CHR 0x5C, CHR ''u'', CHR ''0'', CHR ''0'',
              hex_digit ((of_char c :: nat) div 16), hex_digit ((of_char c :: nat) mod 16)]
      else [c])"

definition QuoteJSONString :: "string \<Rightarrow> string" where
  "QuoteJSONString s = CHR 0x22 # concat (map quote_char s) @ [CHR 0x22]"

fun join_comma :: "string list \<Rightarrow> string" where
  "join_comma [] = []"
| "join_comma [x] = x"
| "join_comma (x # y # ys) = x @ '','' @ join_comma (y # ys)"

text \<open>
  \<^verbatim>\<open>JSON.stringify\<close> on a value that came out of \<^verbatim>\<open>JSON.parse\<close> or that is an
  object literal of strings. The decimal text of a finite number other than zero depends
  on the double it is; it is the parameter \<open>num\<close>. Negative zero prints as \<open>0\<close>, a
  number that is not finite as \<open>null\<close>.
\<close>

fun JSON_stringify :: "(rat \<Rightarrow> string) \<Rightarrow> js_value \<Rightarrow> string" where
  "JSON_stringify num JNull = ''null''"
| "JSON_stringify num (JBool b) = (if b then ''true'' else ''false'')"
| "JSON_stringify num (JNum n) =
     (case n of Finite q \<Rightarrow> num q | NegZero \<Rightarrow> ''0'' | _ \<Rightarrow> ''null'')"
| "JSON_stringify num (JStr s) = QuoteJSONString s"
| "JSON_stringify num (JArr xs) = ''['' @ join_comma (map (JSON_stringify num) xs) @ '']''"
| "JSON_stringify num (JObj kvs) =
     ''{'' @ join_comma (map (\<lambda>(k, v). QuoteJSONString k @ '':'' @ JSON_stringify num v) kvs)
     @ ''}''"

subsection \<open>Events, responses, the outbound request\<close>

record handler_event =
  httpMethod :: string
  event_body :: "string option"

record handler_response =
  statusCode :: nat
  headers :: "(string \<times> string) list"
  body :: string

datatype form_value = BufferValue "byte list" | StringValue string

record form_field =
  field_name :: string
  field_value :: form_value
  field_filename :: "string option"
  field_contentType :: "string option"

record form_data =
  form_boundary :: string
  form_fields :: "form_field list"

record fetch_request =
  req_url :: string
  req_method :: string
  req_headers :: "(string \<times> string) list"
  req_body :: form_data

text \<open>
  What the handler reads of the upstream response: the status, the value of
  \<^verbatim>\<open>headers.get('content-type')\<close> (\<open>None\<close> for \<^verbatim>\<open>null\<close>), and what
  \<^verbatim>\<open>text()\<close> and \<^verbatim>\<open>buffer()\<close> resolve to (\<open>None\<close> when reading the body
  rejects).
\<close>

record upstream_response =
  resp_status :: nat
  resp_content_type :: "string option"
  resp_text :: "string option"
  resp_buffer :: "byte list option"

text \<open>
  The world around the handler: \<^verbatim>\<open>JSON.parse\<close> (\<open>None\<close> when it throws a
  SyntaxError), the printing of numbers, the boundary the form encoder draws, and
  \<^verbatim>\<open>fetch\<close> (\<open>None\<close> when the promise rejects).
\<close>

record env =
  JSON_parse :: "string \<Rightarrow> js_value option"
  Number_toString :: "rat \<Rightarrow> string"
  boundary :: string
  fetch :: "fetch_request \<Rightarrow> upstream_response option"

datatype log_line = ClaidApiError nat string | ProxyError js_error

record outcome =
  response :: handler_response
  calls :: "fetch_request list"
  log :: "log_line list"

subsection \<open>The handler\<close>

definition CLAID_API_KEY :: string where
  "CLAID_API_KEY = ''b075a8d36b374209ac11df342fe68a73''"

definition CLAID_API_BASE_URL :: string where
  "CLAID_API_BASE_URL = ''https://api.claid.ai/v1/image-processing''"

definition FormData_append :: "form_data \<Rightarrow> form_field \<Rightarrow> form_data" where
  "FormData_append fd f = fd\<lparr>form_fields := form_fields fd @ [f]\<rparr>"

definition FormData_getHeaders :: "form_data \<Rightarrow> (string \<times> string) list" where
  "FormData_getHeaders fd =
     [(''content-type'', ''multipart/form-data; boundary='' @ form_boundary fd)]"

text \<open>Lines 48 to 60: the form and the request handed to \<^verbatim>\<open>fetch\<close>.\<close>

definition upstream_request :: "env \<Rightarrow> byte list \<Rightarrow> js_value \<Rightarrow> fetch_request" where
  "upstream_request env imageBuffer instructions =
     (let formData0 = \<lparr>form_boundary = boundary env, form_fields = []\<rparr>;
          formData1 = FormData_append formData0
            \<lparr>field_name = ''source_image'', field_value = BufferValue imageBuffer,
             field_filename = Some ''upload.png'', field_contentType = Some ''image/png''\<rparr>;
          formData = FormData_append formData1
            \<lparr>field_name = ''instructions'',
             field_value = StringValue (JSON_stringify (Number_toString env) instructions),
             field_filename = None, field_contentType = None\<rparr>
      in \<lparr>req_url = CLAID_API_BASE_URL, req_method = ''POST'',
          req_headers = (''Authorization'', ''Claid-API-Key '' @ CLAID_API_KEY)
                        # FormData_getHeaders formData,
          req_body = formData\<rparr>)"

definition error_body :: "env \<Rightarrow> string \<Rightarrow> string" where
  "error_body env msg = JSON_stringify (Number_toString env) (JObj [(''error'', JStr msg)])"

definition response_ok :: "upstream_response \<Rightarrow> bool" where
  "response_ok r = (200 \<le> resp_status r \<and> resp_status r < 300)"

text \<open>
  Line 73, \<^verbatim>\<open>response.headers.get('content-type') || 'image/png'\<close>: the header
  value is \<^verbatim>\<open>null\<close> or a string, and the empty string is falsy.
\<close>

definition resultMimeType :: "upstream_response \<Rightarrow> string" where
  "resultMimeType r =
     (case resp_content_type r of
        None \<Rightarrow> ''image/png''
      | Some m \<Rightarrow> if m \<noteq> [] then m else ''image/png'')"

text \<open>Lines 62 to 82: what the handler makes of the upstream response.\<close>

definition relay_response ::
  "env \<Rightarrow> upstream_response \<Rightarrow> (js_error + handler_response) \<times> log_line list" where
  "relay_response env r =
     (if \<not> response_ok r then
        (case resp_text r of
           None \<Rightarrow> (Inl FetchError, [])
         | Some errorBody \<Rightarrow>
             (Inr \<lparr>statusCode = resp_status r, headers = [],
                   body = error_body env (''Claid.ai API failed: '' @ errorBody)\<rparr>,
              [ClaidApiError (resp_status r) errorBody]))
      else
        (case resp_buffer r of
           None \<Rightarrow> (Inl FetchError, [])
         | Some resultBuffer \<Rightarrow>
             (let resultBase64 =
                    ''data:'' @ resultMimeType r @ '';base64,'' @ base64_encode resultBuffer
              in (Inr \<lparr>statusCode = 200,
                       headers = [(''Content-Type'', ''application/json'')],
                       body = JSON_stringify (Number_toString env)
                                (JObj [(''imageData'', JStr resultBase64)])\<rparr>,
                  []))))"

text \<open>
  Lines 41 to 82, entered with both fields truthy. \<^verbatim>\<open>imageBase64.split\<close> is a
  function only on a string; on every other truthy value the call throws a TypeError.
\<close>

definition forward ::
  "env \<Rightarrow> js_value \<Rightarrow> js_value
     \<Rightarrow> (js_error + handler_response) \<times> fetch_request list \<times> log_line list" where
  "forward env imageBase64 instructions =
     (case imageBase64 of
        JStr s \<Rightarrow>
          (case Array_pop (String_split s '';base64,'') of
             None \<Rightarrow>
               (Inr \<lparr>statusCode = 400, headers = [],
                     body = error_body env ''Invalid Base64 data''\<rparr>, [], [])
           | Some base64Data \<Rightarrow>
               if base64Data = [] then
                 (Inr \<lparr>statusCode = 400, headers = [],
                       body = error_body env ''Invalid Base64 data''\<rparr>, [], [])
               else
                 (let imageBuffer = base64_decode base64Data;
                      request = upstream_request env imageBuffer instructions
                  in case fetch env request of
                       None \<Rightarrow> (Inl FetchError, [request], [])
                     | Some r \<Rightarrow>
                         (fst (relay_response env r), [request], snd (relay_response env r))))
      | _ \<Rightarrow> (Inl TypeError, [], []))"

text \<open>
  \<^verbatim>\<open>event.body || '{}'\<close>: the body is \<^verbatim>\<open>null\<close> or a string, and the empty
  string is falsy.
\<close>

definition body_or_default :: "handler_event \<Rightarrow> string" where
  "body_or_default event =
     (case event_body event of
        None \<Rightarrow> ''{}''
      | Some b \<Rightarrow> if b \<noteq> [] then b else ''{}'')"

text \<open>
  Lines 31 to 82, the body of the \<^verbatim>\<open>try\<close> block: its completion (\<open>Inl\<close> for a
  throw), the requests issued and the lines logged up to there.
\<close>

definition handler_try ::
  "env \<Rightarrow> handler_event
     \<Rightarrow> (js_error + handler_response) \<times> fetch_request list \<times> log_line list" where
  "handler_try env event =
     (case JSON_parse env (body_or_default event) of
        None \<Rightarrow> (Inl SyntaxError, [], [])
      | Some parsed \<Rightarrow>
          (case get_property parsed ''imageBase64'' of
             Inl e \<Rightarrow> (Inl e, [], [])
           | Inr imageBase64 \<Rightarrow>
               (case get_property parsed ''instructions'' of
                  Inl e \<Rightarrow> (Inl e, [], [])
                | Inr instructions \<Rightarrow>
                    (case (imageBase64, instructions) of
                       (Some i, Some j) \<Rightarrow>
                         if \<not> truthy i \<or> \<not> truthy j then
                           (Inr \<lparr>statusCode = 400, headers = [],
                                 body = error_body env
                                   ''Missing imageBase64 or instructions in request body''\<rparr>,
                            [], [])
                         else forward env i j
                     | _ \<Rightarrow>
                         (Inr \<lparr>statusCode = 400, headers = [],
                               body = error_body env
                                 ''Missing imageBase64 or instructions in request body''\<rparr>,
                          [], [])))))"

text \<open>Lines 21 to 91: the method check, the \<^verbatim>\<open>try\<close> block and its \<^verbatim>\<open>catch\<close>.\<close>

definition handler :: "env \<Rightarrow> handler_event \<Rightarrow> outcome" where
  "handler env event =
     (if httpMethod event \<noteq> ''POST'' then
        \<lparr>response = \<lparr>statusCode = 405, headers = [],
                      body = error_body env ''Method Not Allowed''\<rparr>,
         calls = [], log = []\<rparr>
      else
        (case handler_try env event of
           (Inr res, issued, written) \<Rightarrow>
             \<lparr>response = res, calls = issued, log = written\<rparr>
         | (Inl error, issued, written) \<Rightarrow>
             \<lparr>response = \<lparr>statusCode = 500, headers = [],
                           body = error_body env
                             ''An internal error occurred in the proxy function.''\<rparr>,
              calls = issued, log = written @ [ProxyError error]\<rparr>))"

subsection \<open>A stub environment for running the handler\<close>

text \<open>
  To run the handler on concrete requests, \<^verbatim>\<open>JSON.parse\<close> is given on the request
  bodies used below, with the value it returns on each, and throws on every other text;
  the upstream is a stub that answers every request in the same way.
\<close>

definition sepia :: js_value where
  "sepia = JObj [(''operation'', JStr ''generative_filter''), (''prompt'', JStr ''sepia'')]"

text \<open>
  The request body \<^verbatim>\<open>{"imageBase64":"<image>","instructions":{"operation":"generative_filter","prompt":"sepia"}}\<close>.
\<close>

definition sepia_body :: "string \<Rightarrow> string" where
  \<open>sepia_body imageBase64 =
     ''{"imageBase64":"'' @ imageBase64
     @ ''","instructions":{"operation":"generative_filter","prompt":"sepia"}}''\<close>

definition stub_parse :: "string \<Rightarrow> js_value option" where
  \<open>stub_parse = map_of
     [(''{}'', JObj []),
      (''null'', JNull),
      (sepia_body ''data:image/png;base64,AAAA'',
       JObj [(''imageBase64'', JStr ''data:image/png;base64,AAAA''), (''instructions'', sepia)]),
      (sepia_body ''data:image/png;base64,3q0='',
       JObj [(''imageBase64'', JStr ''data:image/png;base64,3q0=''), (''instructions'', sepia)]),
      (sepia_body ''data:image/png;base64,'',
       JObj [(''imageBase64'', JStr ''data:image/png;base64,''), (''instructions'', sepia)]),
      (sepia_body ''hello'',
       JObj [(''imageBase64'', JStr ''hello''), (''instructions'', sepia)]),
      (''{"imageBase64":"data:image/png;base64,AAAA","instructions":0}'',
       JObj [(''imageBase64'', JStr ''data:image/png;base64,AAAA''),
             (''instructions'', JNum (Finite 0))])]\<close>

definition stub_env :: "upstream_response option \<Rightarrow> env" where
  "stub_env r =
     \<lparr>JSON_parse = stub_parse, Number_toString = (\<lambda>q. ''0''),
      boundary = ''--------------------------000000000000000000000000'',
      fetch = (\<lambda>req. r)\<rparr>"

definition post :: "string \<Rightarrow> handler_event" where
  "post b = \<lparr>httpMethod = ''POST'', event_body = Some b\<rparr>"

text \<open>
  Upstream responses for the stub: a failure, and a success with a given content-type
  header and body.
\<close>

definition rate_limited :: upstream_response where
  "rate_limited =
     \<lparr>resp_status = 503, resp_content_type = Some ''text/plain'',
      resp_text = Some ''rate limited'', resp_buffer = Some (map of_char ''rate limited'')\<rparr>"

definition image_response :: "string option \<Rightarrow> byte list \<Rightarrow> upstream_response" where
  "image_response content_type bytes =
     \<lparr>resp_status = 200, resp_content_type = content_type,
      resp_text = Some (map (\<lambda>b. char_of (unat b)) bytes), resp_buffer = Some bytes\<rparr>"

section \<open>Properties of the library functions\<close>

subsection \<open>Splitting at a separator\<close>

lemma split_aux_nonempty: "split_aux d ds acc s \<noteq> []"
  by (induction d ds acc s rule: split_aux.induct) auto

lemma split_aux_no_first:
  "d \<notin> set s \<Longrightarrow> split_aux d ds acc s = [rev acc @ s]"
  by (induction d ds acc s rule: split_aux.induct) auto

text \<open>A string in which the separator does not occur is returned whole.\<close>

lemma split_aux_no_sep:
  "\<not> sublist (d # ds) s \<Longrightarrow> split_aux d ds acc s = [rev acc @ s]"
proof (induction d ds acc s rule: split_aux.induct)
  case (1 d ds acc)
  then show ?case by simp
next
  case (2 d ds acc c cs)
  from "2.prems" have np: "\<not> prefix (d # ds) (c # cs)" and ns: "\<not> sublist (d # ds) cs"
    by (simp_all add: sublist_Cons_right)
  from "2.IH"(2) [OF np ns] have "split_aux d ds (c # acc) cs = [rev (c # acc) @ cs]" .
  moreover from np have "split_aux d ds acc (c # cs) = split_aux d ds (c # acc) cs"
    by auto
  ultimately show ?case by simp
qed

text \<open>
  When the first character of the separator occurs nowhere else in it, two matches
  cannot overlap, and the last piece is what follows the last separator.
\<close>

lemma split_aux_last_after:
  assumes "d \<notin> set ds" and "d \<notin> set p"
  shows "last (split_aux d ds acc (xs @ d # ds @ p)) = p"
proof (induction "length xs" arbitrary: xs acc rule: less_induct)
  case less
  show ?case
  proof (cases xs)
    case Nil
    with assms show ?thesis
      by (simp add: split_aux_no_first)
  next
    case (Cons c xs')
    show ?thesis
    proof (cases "prefix (d # ds) (c # xs' @ d # ds @ p)")
      case True
      then have pre: "prefix ds (xs' @ d # ds @ p)" and cd: "c = d" by auto
      from pre obtain zs where "xs' @ d # ds @ p = ds @ zs"
        by (auto simp: prefix_def)
      then have "take (length ds) (xs' @ d # ds @ p) = take (length ds) (ds @ zs)"
        by (rule arg_cong)
      then have tk: "take (length ds) (xs' @ d # ds @ p) = ds"
        by simp
      have le: "length ds \<le> length xs'"
      proof (rule ccontr)
        assume "\<not> length ds \<le> length xs'"
        then obtain k where k: "length ds - length xs' = Suc k"
          by (cases "length ds - length xs'") auto
        then have "take (length ds) (xs' @ d # ds @ p) = xs' @ d # take k (ds @ p)"
          by simp
        with tk have "set ds = set (xs' @ d # take k (ds @ p))" by simp
        then have "d \<in> set ds" by simp
        with assms(1) show False by simp
      qed
      then have dr: "drop (length ds) (xs' @ d # ds @ p) = drop (length ds) xs' @ d # ds @ p"
        by simp
      have "length (drop (length ds) xs') < length xs" using Cons by simp
      from less [OF this] have
        l: "last (split_aux d ds [] (drop (length ds) xs' @ d # ds @ p)) = p" .
      have "split_aux d ds acc (d # xs' @ d # ds @ p) =
              rev acc # split_aux d ds [] (drop (length ds) xs' @ d # ds @ p)"
        using pre dr by simp
      with l Cons cd show ?thesis
        by (simp add: split_aux_nonempty)
    next
      case False
      have "length xs' < length xs" using Cons by simp
      from less [OF this] have "last (split_aux d ds (c # acc) (xs' @ d # ds @ p)) = p" .
      moreover from False have "split_aux d ds acc (c # xs' @ d # ds @ p) =
          split_aux d ds (c # acc) (xs' @ d # ds @ p)"
        by auto
      ultimately show ?thesis using Cons by simp
    qed
  qed
qed

text \<open>The last piece is empty only if the string is empty or ends with the separator.\<close>

lemma split_aux_last_empty:
  "last (split_aux d ds acc s) = [] \<Longrightarrow> (acc = [] \<and> s = []) \<or> suffix (d # ds) s"
proof (induction d ds acc s rule: split_aux.induct)
  case (1 d ds acc)
  then show ?case by simp
next
  case (2 d ds acc c cs)
  show ?case
  proof (cases "prefix (d # ds) (c # cs)")
    case True
    with "2.prems" have l: "last (split_aux d ds [] (drop (length ds) cs)) = []"
      by (simp add: split_aux_nonempty)
    from "2.IH"(1) [OF True l]
    have "drop (length ds) cs = [] \<or> suffix (d # ds) (drop (length ds) cs)" by blast
    then show ?thesis
    proof
      assume e: "drop (length ds) cs = []"
      from True obtain zs where z: "c # cs = (d # ds) @ zs" by (auto simp: prefix_def)
      then have "cs = ds @ zs" by simp
      with e have "zs = []" by simp
      with z show ?thesis by simp
    next
      assume "suffix (d # ds) (drop (length ds) cs)"
      moreover have "suffix (drop (length ds) cs) cs" by (rule suffix_drop)
      ultimately have "suffix (d # ds) cs"
        by (rule suffix_order.trans)
      then show ?thesis by (simp add: suffix_ConsI)
    qed
  next
    case False
    with "2.prems" have "last (split_aux d ds (c # acc) cs) = []" by auto
    from "2.IH"(2) [OF False this] show ?thesis by (simp add: suffix_ConsI)
  qed
qed

subsection \<open>Base64\<close>

lemma byte_masks: "(3 :: byte) = mask 2" "(15 :: byte) = mask 4" "(63 :: byte) = mask 6"
  by (simp_all add: mask_eq_exp_minus_1)

lemma shift_index:
  "Suc (Suc (n - 2)) = (if 2 \<le> n then n else 2)"
  "n + 2 - 4 = n - 2"
  "4 + (n - 4) = (if 4 \<le> n then n else 4)"
  "6 + (n - 6) = (if 6 \<le> n then n else 6)"
  by auto

lemma lt64I:
  fixes x :: byte
  assumes "take_bit 6 x = x"
  shows "unat x < 64"
proof -
  have "unat x = take_bit 6 (unat x)"
    using assms by (metis unsigned_take_bit_eq)
  also have "\<dots> < 2 ^ 6" by (rule take_bit_nat_less_exp)
  finally show ?thesis by simp
qed

lemma sextet_bounds:
  fixes a b c :: byte
  shows "unat (drop_bit 2 a) < 64"
    and "unat (push_bit 4 (a AND 3) OR drop_bit 4 b) < 64"
    and "unat (push_bit 2 (b AND 15) OR drop_bit 6 c) < 64"
    and "unat (c AND 63) < 64"
    and "unat (push_bit 4 (a AND 3)) < 64"
    and "unat (push_bit 2 (b AND 15)) < 64"
  unfolding byte_masks
  by (rule lt64I, rule bit_word_eqI, auto simp: bit_simps shift_index dest: bit_imp_le_length)+

lemma sextet_bytes:
  fixes a b c :: byte
  shows "push_bit 2 (drop_bit 2 a) OR drop_bit 4 (push_bit 4 (a AND 3) OR drop_bit 4 b) = a"
    and "push_bit 4 ((push_bit 4 (a AND 3) OR drop_bit 4 b) AND 15)
           OR drop_bit 2 (push_bit 2 (b AND 15) OR drop_bit 6 c) = b"
    and "push_bit 6 ((push_bit 2 (b AND 15) OR drop_bit 6 c) AND 3) OR (c AND 63) = c"
    and "push_bit 2 (drop_bit 2 a) OR drop_bit 4 (push_bit 4 (a AND 3)) = a"
    and "push_bit 4 ((push_bit 4 (a AND 3) OR drop_bit 4 b) AND 15)
           OR drop_bit 2 (push_bit 2 (b AND 15)) = b"
  unfolding byte_masks
  by (rule bit_word_eqI, auto simp: bit_simps shift_index)+

lemma base64_table_digits:
  "\<forall>n<64. unbase64 (base64_table ! n) = Some (of_nat n)
          \<and> base64_table ! n \<noteq> CHR ''='' \<and> base64_table ! n \<noteq> CHR '';''"
  by (simp add: All_less_Suc base64_table_def unbase64_def numeral_eq_Suc)

lemma b64_digit:
  assumes "unat x < 64"
  shows "unbase64 (b64 x) = Some x" and "b64 x \<noteq> CHR ''=''" and "b64 x \<noteq> CHR '';''"
  using assms base64_table_digits by (auto simp: b64_def)

lemma sextets_digit: "unat x < 64 \<Longrightarrow> sextets (b64 x # cs) = x # sextets cs"
  by (simp add: b64_digit)

lemma sextets_pad: "sextets (CHR ''='' # cs) = []"
  by simp

lemma base64_roundtrip: "base64_decode (base64_encode bs) = bs"
  unfolding base64_decode_def
proof (induction bs rule: base64_encode.induct)
  case 1
  show ?case by simp
next
  case (2 a)
  show ?case
    by (simp only: base64_encode.simps sextets_digit sextet_bounds sextets_pad
          group_bytes.simps sextet_bytes)
next
  case (3 a b)
  show ?case
    by (simp only: base64_encode.simps sextets_digit sextet_bounds sextets_pad
          group_bytes.simps sextet_bytes)
next
  case (4 a b c rest)
  then show ?case
    by (simp only: base64_encode.simps sextets_digit sextet_bounds append.simps
          group_bytes.simps sextet_bytes)
qed

lemma pad_not_semicolon: "CHR '';'' \<noteq> CHR ''=''"
  by simp

lemma b64_not_semicolon: "unat x < 64 \<Longrightarrow> CHR '';'' \<noteq> b64 x"
  using b64_digit(3) by metis

lemma base64_encode_no_semicolon: "CHR '';'' \<notin> set (base64_encode bs)"
  by (induction bs rule: base64_encode.induct)
     (simp_all only: base64_encode.simps list.set set_append Un_iff insert_iff empty_iff
        b64_not_semicolon sextet_bounds pad_not_semicolon simp_thms)

lemma base64_encode_empty: "base64_encode bs = [] \<longleftrightarrow> bs = []"
  by (induction bs rule: base64_encode.induct) simp_all


subsection \<open>The text behind the last marker\<close>

lemma pop_split_after:
  assumes "CHR '';'' \<notin> set p"
  shows "Array_pop (String_split (pre @ '';base64,'' @ p) '';base64,'') = Some p"
  using split_aux_last_after [of "CHR '';''" "''base64,''" p "[]" pre] assms
  by (simp add: String_split_def Array_pop_def split_aux_nonempty)

lemma pop_split_ends_with:
  assumes "s \<noteq> []"
  shows "Array_pop (String_split s '';base64,'') = Some [] \<longleftrightarrow> suffix '';base64,'' s"
proof
  assume "Array_pop (String_split s '';base64,'') = Some []"
  then have "last (split_aux (CHR '';'') ''base64,'' [] s) = []"
    by (simp add: String_split_def Array_pop_def split_aux_nonempty)
  from split_aux_last_empty [OF this] assms show "suffix '';base64,'' s" by simp
next
  assume "suffix '';base64,'' s"
  then obtain pre where "s = pre @ '';base64,'' @ []" by (auto simp: suffix_def)
  with pop_split_after [of "[]" pre] show "Array_pop (String_split s '';base64,'') = Some []"
    by simp
qed

lemma pop_split_Some:
  "Array_pop (String_split s '';base64,'') = Some (last (String_split s '';base64,''))"
  by (simp add: String_split_def Array_pop_def split_aux_nonempty)

lemma pop_split_no_marker:
  assumes "\<not> sublist '';base64,'' s"
  shows "Array_pop (String_split s '';base64,'') = Some s"
  using split_aux_no_sep [of "CHR '';''" "''base64,''" s "[]"] assms
  by (simp add: String_split_def Array_pop_def)

section \<open>The paths through the handler\<close>

lemma error_texts:
  \<open>error_body env ''Method Not Allowed'' = ''{"error":"Method Not Allowed"}''\<close>
  \<open>error_body env ''Missing imageBase64 or instructions in request body'' =
     ''{"error":"Missing imageBase64 or instructions in request body"}''\<close>
  \<open>error_body env ''Invalid Base64 data'' = ''{"error":"Invalid Base64 data"}''\<close>
  \<open>error_body env ''An internal error occurred in the proxy function.'' =
     ''{"error":"An internal error occurred in the proxy function."}''\<close>
  by (simp_all add: error_body_def QuoteJSONString_def quote_char_def)

lemma handler_try_fields:
  assumes "JSON_parse env (body_or_default event) = Some parsed"
    and "get_property parsed ''imageBase64'' = Inr i"
    and "get_property parsed ''instructions'' = Inr j"
  shows \<open>handler_try env event =
           (if truthy_opt i \<and> truthy_opt j then forward env (the i) (the j)
            else (Inr \<lparr>statusCode = 400, headers = [],
                       body = ''{"error":"Missing imageBase64 or instructions in request body"}''\<rparr>,
                  [], []))\<close>
  using assms by (cases i; cases j) (simp_all add: handler_try_def error_texts)

lemma handler_post:
  assumes "httpMethod event = ''POST''"
  shows \<open>handler env event =
           (case fst (handler_try env event) of
              Inr res \<Rightarrow> \<lparr>response = res, calls = fst (snd (handler_try env event)),
                          log = snd (snd (handler_try env event))\<rparr>
            | Inl e \<Rightarrow>
                \<lparr>response = \<lparr>statusCode = 500, headers = [],
                    body = ''{"error":"An internal error occurred in the proxy function."}''\<rparr>,
                 calls = fst (snd (handler_try env event)),
                 log = snd (snd (handler_try env event)) @ [ProxyError e]\<rparr>)\<close>
  using assms
  by (cases "handler_try env event") (simp add: handler_def error_texts split: sum.splits)

lemma forward_call:
  assumes "Array_pop (String_split s '';base64,'') = Some d" and "d \<noteq> []"
  shows "forward env (JStr s) j =
           (case fetch env (upstream_request env (base64_decode d) j) of
              None \<Rightarrow> (Inl FetchError, [upstream_request env (base64_decode d) j], [])
            | Some r \<Rightarrow> (fst (relay_response env r),
                         [upstream_request env (base64_decode d) j],
                         snd (relay_response env r)))"
  using assms by (simp add: forward_def Let_def)

lemma forward_invalid:
  assumes "Array_pop (String_split s '';base64,'') = Some []"
  shows \<open>forward env (JStr s) j =
           (Inr \<lparr>statusCode = 400, headers = [], body = ''{"error":"Invalid Base64 data"}''\<rparr>,
            [], [])\<close>
  using assms by (simp add: forward_def error_texts)

lemma forward_calls:
  assumes "req \<in> set (fst (snd (forward env i j)))"
  shows "fst (snd (forward env i j)) = [req] \<and>
         (case fetch env req of
            None \<Rightarrow> forward env i j = (Inl FetchError, [req], [])
          | Some r \<Rightarrow> forward env i j = (fst (relay_response env r), [req], snd (relay_response env r)))"
  using assms
  by (auto simp: forward_def Let_def split: js_value.splits option.splits if_splits)

lemma handler_try_calls:
  assumes "req \<in> set (fst (snd (handler_try env event)))"
  shows "fst (snd (handler_try env event)) = [req] \<and>
         (case fetch env req of
            None \<Rightarrow> handler_try env event = (Inl FetchError, [req], [])
          | Some r \<Rightarrow> handler_try env event =
                        (fst (relay_response env r), [req], snd (relay_response env r)))"
proof -
  from assms obtain i j where "handler_try env event = forward env i j"
    by (auto simp: handler_try_def split: option.splits sum.splits if_splits)
  with assms forward_calls [of req env i j] show ?thesis
    by (simp split: option.splits)
qed

lemma handler_calls:
  assumes "req \<in> set (calls (handler env event))"
  shows "httpMethod event = ''POST''" and "req \<in> set (fst (snd (handler_try env event)))"
  using assms
  by (auto simp: handler_def split: if_splits prod.splits sum.splits)


lemma handler_after_call:
  assumes "req \<in> set (calls (handler env event))"
    and "fetch env req = Some r"
  shows "calls (handler env event) = [req]"
    and "fst (relay_response env r) = Inr res \<Longrightarrow> response (handler env event) = res"
proof -
  from handler_calls [OF assms(1)] have p: "httpMethod event = ''POST''"
    and c: "req \<in> set (fst (snd (handler_try env event)))" by simp_all
  from handler_try_calls [OF c] assms(2) have
    t: "handler_try env event = (fst (relay_response env r), [req], snd (relay_response env r))"
    by simp
  from p t show "calls (handler env event) = [req]"
    by (simp add: handler_post split: sum.splits)
  from p t show "response (handler env event) = res" if "fst (relay_response env r) = Inr res"
    using that by (simp add: handler_post)
qed

lemma split_AAAA:
  "Array_pop (String_split ''data:image/png;base64,AAAA'' '';base64,'') = Some ''AAAA''"
  by (simp add: Array_pop_def String_split_def)

lemma decode_AAAA: "base64_decode ''AAAA'' = [0, 0, 0]"
  by (simp add: base64_decode_def unbase64_def)

lemma handler_valid_calls:
  assumes "httpMethod event = ''POST''"
    and "JSON_parse env (body_or_default event) = Some parsed"
    and "get_property parsed ''imageBase64'' = Inr (Some (JStr s))"
    and "get_property parsed ''instructions'' = Inr (Some j)"
    and "truthy j"
    and "Array_pop (String_split s '';base64,'') = Some d"
    and "d \<noteq> []"
  shows "calls (handler env event) = [upstream_request env (base64_decode d) j]"
proof -
  have "s \<noteq> []"
  proof
    assume "s = []"
    with assms(6) have "d = []" by (simp add: Array_pop_def String_split_def)
    with assms(7) show False by simp
  qed
  with handler_try_fields [OF assms(2,3,4)] assms(5)
  have "handler_try env event = forward env (JStr s) j" by simp
  with forward_call [OF assms(6,7), of env j]
  have "fst (snd (handler_try env event)) = [upstream_request env (base64_decode d) j]"
    by (simp split: option.splits)
  with assms(1) show ?thesis by (simp add: handler_post split: sum.splits)
qed

lemma relay_success:
  assumes "200 \<le> resp_status r \<and> resp_status r < 300" and "resp_buffer r = Some resultBuffer"
  shows "relay_response env r =
           (Inr \<lparr>statusCode = 200, headers = [(''Content-Type'', ''application/json'')],
                 body = JSON_stringify (Number_toString env)
                          (JObj [(''imageData'',
                                  JStr (''data:'' @ resultMimeType r @ '';base64,''
                                        @ base64_encode resultBuffer))])\<rparr>, [])"
  using assms by (simp add: relay_response_def response_ok_def)

lemma handler_invalid_base64:
  assumes "httpMethod event = ''POST''"
    and "JSON_parse env (body_or_default event) = Some parsed"
    and "get_property parsed ''imageBase64'' = Inr (Some (JStr s))"
    and "get_property parsed ''instructions'' = Inr (Some instructions)"
    and "truthy instructions"
    and "s \<noteq> []"
    and "Array_pop (String_split s '';base64,'') = Some []"
  shows \<open>handler env event =
           \<lparr>response = \<lparr>statusCode = 400, headers = [],
                         body = ''{"error":"Invalid Base64 data"}''\<rparr>,
            calls = [], log = []\<rparr>\<close>
proof -
  from forward_invalid [OF assms(7), of env instructions]
    handler_try_fields [OF assms(2,3,4)] assms(5,6)
  have \<open>handler_try env event =
          (Inr \<lparr>statusCode = 400, headers = [], body = ''{"error":"Invalid Base64 data"}''\<rparr>,
           [], [])\<close>
    by simp
  with assms(1) show ?thesis by (simp add: handler_post)
qed

text \<open>
  The data URL of the empty buffer ends with the marker: the handler answers 400 and
  the upstream is never called.
\<close>

lemma empty_buffer_is_rejected:
  assumes "httpMethod event = ''POST''"
    and "JSON_parse env (body_or_default event) = Some parsed"
    and "get_property parsed ''imageBase64'' =
           Inr (Some (JStr (''data:'' @ mime @ '';base64,'' @ base64_encode [])))"
    and "get_property parsed ''instructions'' = Inr (Some instructions)"
    and "truthy instructions"
  shows \<open>handler env event =
           \<lparr>response = \<lparr>statusCode = 400, headers = [],
                         body = ''{"error":"Invalid Base64 data"}''\<rparr>,
            calls = [], log = []\<rparr>\<close>
proof (rule handler_invalid_base64 [OF assms])
  show "''data:'' @ mime @ '';base64,'' @ base64_encode [] \<noteq> []" by simp
  have "Array_pop (String_split ((''data:'' @ mime) @ '';base64,'' @ []) '';base64,'') = Some []"
    by (rule pop_split_after) simp
  then show "Array_pop (String_split (''data:'' @ mime @ '';base64,'' @ base64_encode [])
               '';base64,'') = Some []"
    by simp
qed

text \<open>For a buffer that is not empty the call is issued, and it carries the buffer.\<close>

lemma data_url_is_forwarded:
  assumes "httpMethod event = ''POST''"
    and "JSON_parse env (body_or_default event) = Some parsed"
    and "get_property parsed ''imageBase64'' =
           Inr (Some (JStr (''data:'' @ mime @ '';base64,'' @ base64_encode B)))"
    and "get_property parsed ''instructions'' = Inr (Some instructions)"
    and "truthy instructions"
    and "B \<noteq> []"
  shows "calls (handler env event) = [upstream_request env B instructions]"
proof -
  have ne: "base64_encode B \<noteq> []" using assms(6) by (simp add: base64_encode_empty)
  have "Array_pop (String_split ((''data:'' @ mime) @ '';base64,'' @ base64_encode B) '';base64,'')
          = Some (base64_encode B)"
    by (rule pop_split_after) (rule base64_encode_no_semicolon)
  then have sp: "Array_pop (String_split (''data:'' @ mime @ '';base64,'' @ base64_encode B)
                   '';base64,'') = Some (base64_encode B)"
    by simp
  from handler_valid_calls [OF assms(1,2,3,4,5) sp ne] show ?thesis
    by (simp add: base64_roundtrip)
qed

text \<open>
  The steps of the \<^verbatim>\<open>try\<close> block that throw: \<^verbatim>\<open>JSON.parse\<close> on a text that is
  no JSON, destructuring \<^verbatim>\<open>null\<close>, \<^verbatim>\<open>split\<close> on a value that is no string, a
  rejected \<^verbatim>\<open>fetch\<close>, and a rejected read of the upstream body.
\<close>

lemma handler_try_throws:
  "JSON_parse env (body_or_default event) = None \<Longrightarrow>
     fst (handler_try env event) = Inl SyntaxError"
  "JSON_parse env (body_or_default event) = Some JNull \<Longrightarrow>
     fst (handler_try env event) = Inl TypeError"
  "\<lbrakk>JSON_parse env (body_or_default event) = Some (JObj kvs);
    map_of kvs ''imageBase64'' = Some i; truthy i; \<forall>s. i \<noteq> JStr s;
    map_of kvs ''instructions'' = Some j; truthy j\<rbrakk> \<Longrightarrow>
     fst (handler_try env event) = Inl TypeError"
  "\<lbrakk>req \<in> set (fst (snd (handler_try env event))); fetch env req = None\<rbrakk> \<Longrightarrow>
     fst (handler_try env event) = Inl FetchError"
  "\<lbrakk>req \<in> set (fst (snd (handler_try env event))); fetch env req = Some r;
    \<not> response_ok r; resp_text r = None\<rbrakk> \<Longrightarrow>
     fst (handler_try env event) = Inl FetchError"
  "\<lbrakk>req \<in> set (fst (snd (handler_try env event))); fetch env req = Some r;
    response_ok r; resp_buffer r = None\<rbrakk> \<Longrightarrow>
     fst (handler_try env event) = Inl FetchError"
proof -
  show "fst (handler_try env event) = Inl SyntaxError"
    if "JSON_parse env (body_or_default event) = None"
    using that by (simp add: handler_try_def)
  show "fst (handler_try env event) = Inl TypeError"
    if "JSON_parse env (body_or_default event) = Some JNull"
    using that by (simp add: handler_try_def)
  show "fst (handler_try env event) = Inl TypeError"
    if "JSON_parse env (body_or_default event) = Some (JObj kvs)"
      and "map_of kvs ''imageBase64'' = Some i" and "truthy i" and "\<forall>s. i \<noteq> JStr s"
      and "map_of kvs ''instructions'' = Some j" and "truthy j"
    using that by (cases i) (simp_all add: handler_try_def forward_def)
  show "fst (handler_try env event) = Inl FetchError"
    if "req \<in> set (fst (snd (handler_try env event)))" and "fetch env req = None"
    using handler_try_calls [OF that(1)] that(2) by simp
  show "fst (handler_try env event) = Inl FetchError"
    if "req \<in> set (fst (snd (handler_try env event)))" and "fetch env req = Some r"
      and "\<not> response_ok r" and "resp_text r = None"
    using handler_try_calls [OF that(1)] that(2,3,4) by (simp add: relay_response_def)
  show "fst (handler_try env event) = Inl FetchError"
    if "req \<in> set (fst (snd (handler_try env event)))" and "fetch env req = Some r"
      and "response_ok r" and "resp_buffer r = None"
    using handler_try_calls [OF that(1)] that(2,3,4) by (simp add: relay_response_def)
qed

subsection \<open>The stub environment\<close>

lemma stub_simps:
  "JSON_parse (stub_env r) = stub_parse"
  "Number_toString (stub_env r) = (\<lambda>q. ''0'')"
  "fetch (stub_env r) = (\<lambda>req. r)"
  "boundary (stub_env r) = ''--------------------------000000000000000000000000''"
  by (simp_all add: stub_env_def)

lemma post_simps:
  "httpMethod (post b) = ''POST''"
  "body_or_default (post b) = (if b \<noteq> [] then b else ''{}'')"
  by (simp_all add: post_def body_or_default_def)

lemma sepia_body_nonempty: "sepia_body s \<noteq> []"
  by (simp add: sepia_body_def)

lemma stub_parse_values:
  "stub_parse ''not json'' = None"
  "stub_parse ''{}'' = Some (JObj [])"
  "stub_parse ''null'' = Some JNull"
  "stub_parse (sepia_body ''data:image/png;base64,AAAA'') =
     Some (JObj [(''imageBase64'', JStr ''data:image/png;base64,AAAA''),
                 (''instructions'', sepia)])"
  "stub_parse (sepia_body ''data:image/png;base64,3q0='') =
     Some (JObj [(''imageBase64'', JStr ''data:image/png;base64,3q0=''),
                 (''instructions'', sepia)])"
  "stub_parse (sepia_body ''data:image/png;base64,'') =
     Some (JObj [(''imageBase64'', JStr ''data:image/png;base64,''), (''instructions'', sepia)])"
  "stub_parse (sepia_body ''hello'') =
     Some (JObj [(''imageBase64'', JStr ''hello''), (''instructions'', sepia)])"
  \<open>stub_parse ''{"imageBase64":"data:image/png;base64,AAAA","instructions":0}'' =
     Some (JObj [(''imageBase64'', JStr ''data:image/png;base64,AAAA''),
                 (''instructions'', JNum (Finite 0))])\<close>
  by (simp_all add: stub_parse_def sepia_body_def)

lemma sepia_AAAA_calls:
  "calls (handler (stub_env r) (post (sepia_body ''data:image/png;base64,AAAA''))) =
     [upstream_request (stub_env r) [0, 0, 0] sepia]"
proof -
  let ?ev = "post (sepia_body ''data:image/png;base64,AAAA'')"
  have "calls (handler (stub_env r) ?ev) =
          [upstream_request (stub_env r) (base64_decode ''AAAA'') sepia]"
  proof (rule handler_valid_calls)
    show "httpMethod ?ev = ''POST''" by (simp add: post_simps)
    show "JSON_parse (stub_env r) (body_or_default ?ev) =
            Some (JObj [(''imageBase64'', JStr ''data:image/png;base64,AAAA''),
                        (''instructions'', sepia)])"
      by (simp add: post_simps stub_simps stub_parse_values sepia_body_nonempty)
    show "get_property (JObj [(''imageBase64'', JStr ''data:image/png;base64,AAAA''),
                        (''instructions'', sepia)]) ''imageBase64'' =
            Inr (Some (JStr ''data:image/png;base64,AAAA''))" by simp
    show "get_property (JObj [(''imageBase64'', JStr ''data:image/png;base64,AAAA''),
                        (''instructions'', sepia)]) ''instructions'' = Inr (Some sepia)" by simp
    show "truthy sepia" by (simp add: sepia_def)
    show "Array_pop (String_split ''data:image/png;base64,AAAA'' '';base64,'') = Some ''AAAA''"
      by (rule split_AAAA)
    show "''AAAA'' \<noteq> []" by simp
  qed
  then show ?thesis by (simp add: decode_AAAA)
qed

lemma sepia_text:
  \<open>JSON_stringify num sepia = ''{"operation":"generative_filter","prompt":"sepia"}''\<close>
  by (simp add: sepia_def QuoteJSONString_def quote_char_def)

lemma decode_hello: "base64_decode ''hello'' = [0x85, 0xE9, 0x65]"
  by (simp add: base64_decode_def unbase64_def)

section \<open>The claims\<close>

text \<open>
  C1, as stated, fails: \<^verbatim>\<open>split(';base64,').pop()\<close> returns the whole string when
  the marker does not occur in it. The string \<^verbatim>\<open>hello\<close> has no marker; the handler
  decodes it and issues the upstream call.
\<close>

theorem no_marker_is_forwarded:
  \<open>\<not> sublist '';base64,'' ''hello''
   \<and> stub_parse (sepia_body ''hello'') =
       Some (JObj [(''imageBase64'', JStr ''hello''), (''instructions'', sepia)])
   \<and> truthy (JStr ''hello'') \<and> truthy sepia
   \<and> calls (handler (stub_env (Some (image_response (Some ''image/png'') [0xDE, 0xAD])))
              (post (sepia_body ''hello''))) =
       [upstream_request (stub_env (Some (image_response (Some ''image/png'') [0xDE, 0xAD])))
          [0x85, 0xE9, 0x65] sepia]
   \<and> response (handler (stub_env (Some (image_response (Some ''image/png'') [0xDE, 0xAD])))
              (post (sepia_body ''hello''))) =
       \<lparr>statusCode = 200, headers = [(''Content-Type'', ''application/json'')],
        body = ''{"imageData":"data:image/png;base64,3q0="}''\<rparr>\<close>
proof -
  let ?r = "image_response (Some ''image/png'') [0xDE, 0xAD]"
  let ?env = "stub_env (Some ?r)"
  let ?ev = "post (sepia_body ''hello'')"
  let ?parsed = "JObj [(''imageBase64'', JStr ''hello''), (''instructions'', sepia)]"
  let ?req = "upstream_request ?env [0x85, 0xE9, 0x65] sepia"
  have ns: "\<not> sublist '';base64,'' ''hello''"
    by (simp add: sublist_Cons_right)
  have "calls (handler ?env ?ev) = [upstream_request ?env (base64_decode ''hello'') sepia]"
  proof (rule handler_valid_calls)
    show "httpMethod ?ev = ''POST''" by (simp add: post_simps)
    show "JSON_parse ?env (body_or_default ?ev) = Some ?parsed"
      by (simp add: post_simps stub_simps stub_parse_values sepia_body_nonempty)
    show "get_property ?parsed ''imageBase64'' = Inr (Some (JStr ''hello''))" by simp
    show "get_property ?parsed ''instructions'' = Inr (Some sepia)" by simp
    show "truthy sepia" by (simp add: sepia_def)
    show "Array_pop (String_split ''hello'' '';base64,'') = Some ''hello''"
      by (simp add: Array_pop_def String_split_def)
    show "''hello'' \<noteq> []" by simp
  qed
  then have c: "calls (handler ?env ?ev) = [?req]" by (simp add: decode_hello)
  then have m: "?req \<in> set (calls (handler ?env ?ev))" by simp
  have f: "fetch ?env ?req = Some ?r" by (simp add: stub_simps)
  have \<open>fst (relay_response ?env ?r) =
      Inr \<lparr>statusCode = 200, headers = [(''Content-Type'', ''application/json'')],
           body = ''{"imageData":"data:image/png;base64,3q0="}''\<rparr>\<close>
    by (simp add: relay_response_def response_ok_def resultMimeType_def image_response_def
          b64_def base64_table_def QuoteJSONString_def quote_char_def)
  from handler_after_call(2) [OF m f this] c ns show ?thesis
    by (simp add: stub_parse_values sepia_def)
qed

text \<open>
  C1, amended. For every POST request whose parsed body has truthy \<^verbatim>\<open>imageBase64\<close>
  and \<^verbatim>\<open>instructions\<close> fields, \<^verbatim>\<open>imageBase64\<close> being a string: when the string ends
  with \<^verbatim>\<open>;base64,\<close>, so that nothing follows the last marker, the handler answers 400
  with \<^verbatim>\<open>{"error":"Invalid Base64 data"}\<close> and issues no upstream call; otherwise it
  issues the upstream call with the decoded text behind the last marker, which is the
  whole string when the string has no marker.
\<close>

theorem invalid_base64_data:
  assumes "httpMethod event = ''POST''"
    and "JSON_parse env (body_or_default event) = Some parsed"
    and "get_property parsed ''imageBase64'' = Inr (Some (JStr s))"
    and "s \<noteq> []"
    and "get_property parsed ''instructions'' = Inr (Some instructions)"
    and "truthy instructions"
  shows \<open>(suffix '';base64,'' s \<longrightarrow>
            handler env event =
              \<lparr>response = \<lparr>statusCode = 400, headers = [],
                            body = ''{"error":"Invalid Base64 data"}''\<rparr>,
               calls = [], log = []\<rparr>)
         \<and> (\<not> suffix '';base64,'' s \<longrightarrow>
            calls (handler env event) =
              [upstream_request env (base64_decode (last (String_split s '';base64,'')))
                 instructions])
         \<and> (\<not> sublist '';base64,'' s \<longrightarrow>
            calls (handler env event) = [upstream_request env (base64_decode s) instructions])\<close>
proof (intro conjI impI)
  assume "suffix '';base64,'' s"
  with pop_split_ends_with [OF assms(4)]
  have "Array_pop (String_split s '';base64,'') = Some []" by simp
  from handler_invalid_base64 [OF assms(1,2,3,5,6,4) this]
  show \<open>handler env event =
              \<lparr>response = \<lparr>statusCode = 400, headers = [],
                            body = ''{"error":"Invalid Base64 data"}''\<rparr>,
               calls = [], log = []\<rparr>\<close> .
next
  assume "\<not> suffix '';base64,'' s"
  with pop_split_ends_with [OF assms(4)] pop_split_Some [of s]
  have "last (String_split s '';base64,'') \<noteq> []" by auto
  from handler_valid_calls [OF assms(1,2,3,5,6) pop_split_Some this]
  show "calls (handler env event) =
              [upstream_request env (base64_decode (last (String_split s '';base64,'')))
                 instructions]" .
next
  assume "\<not> sublist '';base64,'' s"
  from handler_valid_calls [OF assms(1,2,3,5,6) pop_split_no_marker [OF this] assms(4)]
  show "calls (handler env event) = [upstream_request env (base64_decode s) instructions]" .
qed

theorem invalid_base64_data_witness:
  \<open>suffix '';base64,'' ''data:image/png;base64,''
   \<and> handler (stub_env None) (post (sepia_body ''data:image/png;base64,'')) =
       \<lparr>response = \<lparr>statusCode = 400, headers = [],
                     body = ''{"error":"Invalid Base64 data"}''\<rparr>,
        calls = [], log = []\<rparr>
   \<and> \<not> suffix '';base64,'' ''data:image/png;base64,AAAA''
   \<and> calls (handler (stub_env None) (post (sepia_body ''data:image/png;base64,AAAA''))) =
       [upstream_request (stub_env None) [0, 0, 0] sepia]
   \<and> \<not> sublist '';base64,'' ''hello''
   \<and> calls (handler (stub_env None) (post (sepia_body ''hello''))) =
       [upstream_request (stub_env None) [0x85, 0xE9, 0x65] sepia]\<close>
proof -
  have t: "truthy sepia" by (simp add: sepia_def)
  have p: "httpMethod (post b) = ''POST''" for b by (simp add: post_simps)
  have q: "JSON_parse (stub_env None) (body_or_default (post (sepia_body u))) =
             stub_parse (sepia_body u)" for u
    by (simp add: post_simps stub_simps sepia_body_nonempty)
  have g: "get_property (JObj [(''imageBase64'', JStr u), (''instructions'', sepia)])
             ''imageBase64'' = Inr (Some (JStr u))"
          "get_property (JObj [(''imageBase64'', JStr u), (''instructions'', sepia)])
             ''instructions'' = Inr (Some sepia)" for u
    by simp_all
  have s1: "suffix '';base64,'' ''data:image/png;base64,''"
    by (rule suffixI [of _ "''data:image/png''"]) simp
  have s2: "\<not> suffix '';base64,'' ''data:image/png;base64,AAAA''"
    by (simp add: suffix_def append_eq_Cons_conv)
  have s3: "\<not> sublist '';base64,'' ''hello''"
    by (simp add: sublist_Cons_right)
  have l2: "last (String_split ''data:image/png;base64,AAAA'' '';base64,'') = ''AAAA''"
    by (simp add: String_split_def)
  have n: "''data:image/png;base64,'' \<noteq> []" "''data:image/png;base64,AAAA'' \<noteq> []"
    "''hello'' \<noteq> []" by simp_all
  from invalid_base64_data
    [OF p q [of "''data:image/png;base64,''", unfolded stub_parse_values] g(1) n(1) g(2) t] s1
  have 1: \<open>handler (stub_env None) (post (sepia_body ''data:image/png;base64,'')) =
       \<lparr>response = \<lparr>statusCode = 400, headers = [],
                     body = ''{"error":"Invalid Base64 data"}''\<rparr>,
        calls = [], log = []\<rparr>\<close>
    by blast
  from invalid_base64_data
    [OF p q [of "''data:image/png;base64,AAAA''", unfolded stub_parse_values] g(1) n(2) g(2) t] s2
  have "calls (handler (stub_env None) (post (sepia_body ''data:image/png;base64,AAAA''))) =
       [upstream_request (stub_env None)
          (base64_decode (last (String_split ''data:image/png;base64,AAAA'' '';base64,''))) sepia]"
    by blast
  then have 2: "calls (handler (stub_env None) (post (sepia_body ''data:image/png;base64,AAAA''))) =
       [upstream_request (stub_env None) [0, 0, 0] sepia]"
    by (simp only: l2 decode_AAAA)
  from invalid_base64_data
    [OF p q [of "''hello''", unfolded stub_parse_values] g(1) n(3) g(2) t] s3
  have "calls (handler (stub_env None) (post (sepia_body ''hello''))) =
       [upstream_request (stub_env None) (base64_decode ''hello'') sepia]"
    by blast
  then have 3: "calls (handler (stub_env None) (post (sepia_body ''hello''))) =
       [upstream_request (stub_env None) [0x85, 0xE9, 0x65] sepia]"
    by (simp only: decode_hello)
  from 1 2 3 s1 s2 s3 show ?thesis by blast
qed

text \<open>
  C2. Let the byte buffer \<open>B\<close> be Base64-encoded into a data URL and submitted as
  \<^verbatim>\<open>imageBase64\<close> of a POST body with truthy instructions. When the upstream answers
  the call of the handler with status 200 and the body \<open>B\<close>, the call carried \<open>B\<close>
  as its image, and the handler answers with status 200 and an \<^verbatim>\<open>imageData\<close> data URL
  whose Base64 payload, taken and decoded as the handler itself does, is \<open>B\<close>. By
  \<open>data_url_is_forwarded\<close> the call is issued for every buffer that is not empty; by
  \<open>empty_buffer_is_rejected\<close> the empty buffer never reaches the upstream.
\<close>

theorem base64_round_trip:
  assumes "httpMethod event = ''POST''"
    and "JSON_parse env (body_or_default event) = Some parsed"
    and "get_property parsed ''imageBase64'' =
           Inr (Some (JStr (''data:'' @ mime @ '';base64,'' @ base64_encode B)))"
    and "get_property parsed ''instructions'' = Inr (Some instructions)"
    and "truthy instructions"
    and "req \<in> set (calls (handler env event))"
    and "fetch env req = Some r"
    and "resp_status r = 200"
    and "resp_buffer r = Some B"
  shows "req = upstream_request env B instructions
         \<and> (\<exists>imageData.
               response (handler env event) =
                 \<lparr>statusCode = 200, headers = [(''Content-Type'', ''application/json'')],
                  body = JSON_stringify (Number_toString env)
                           (JObj [(''imageData'', JStr imageData)])\<rparr>
               \<and> imageData = ''data:'' @ resultMimeType r @ '';base64,'' @ base64_encode B
               \<and> map_option base64_decode (Array_pop (String_split imageData '';base64,''))
                   = Some B)"
proof -
  have ne: "B \<noteq> []"
  proof
    assume "B = []"
    with empty_buffer_is_rejected [OF assms(1,2) _ assms(4,5), of mime] assms(3)
    have "calls (handler env event) = []" by simp
    with assms(6) show False by simp
  qed
  from data_url_is_forwarded [OF assms(1,2,3,4,5) ne] assms(6)
  have q: "req = upstream_request env B instructions" by simp
  have ok: "200 \<le> resp_status r \<and> resp_status r < 300" using assms(8) by simp
  from handler_after_call(2) [OF assms(6,7)] relay_success [OF ok assms(9), of env]
  have r: "response (handler env event) =
            \<lparr>statusCode = 200, headers = [(''Content-Type'', ''application/json'')],
             body = JSON_stringify (Number_toString env)
                      (JObj [(''imageData'',
                              JStr (''data:'' @ resultMimeType r @ '';base64,''
                                    @ base64_encode B))])\<rparr>"
    by simp
  have "Array_pop (String_split ((''data:'' @ resultMimeType r) @ '';base64,'' @ base64_encode B)
          '';base64,'') = Some (base64_encode B)"
    by (rule pop_split_after) (rule base64_encode_no_semicolon)
  then have "map_option base64_decode
               (Array_pop (String_split (''data:'' @ resultMimeType r @ '';base64,''
                                          @ base64_encode B) '';base64,'')) = Some B"
    by (simp add: base64_roundtrip)
  with q r show ?thesis by blast
qed

theorem base64_round_trip_witness:
  \<open>base64_encode [0xDE, 0xAD] = ''3q0=''
   \<and> calls (handler (stub_env (Some (image_response (Some ''image/png'') [0xDE, 0xAD])))
              (post (sepia_body ''data:image/png;base64,3q0=''))) =
       [upstream_request (stub_env (Some (image_response (Some ''image/png'') [0xDE, 0xAD])))
          [0xDE, 0xAD] sepia]
   \<and> response (handler (stub_env (Some (image_response (Some ''image/png'') [0xDE, 0xAD])))
              (post (sepia_body ''data:image/png;base64,3q0=''))) =
       \<lparr>statusCode = 200, headers = [(''Content-Type'', ''application/json'')],
        body = ''{"imageData":"data:image/png;base64,3q0="}''\<rparr>
   \<and> base64_decode ''3q0='' = [0xDE, 0xAD]\<close>
proof -
  let ?B = "[0xDE, 0xAD] :: byte list"
  let ?r = "image_response (Some ''image/png'') ?B"
  let ?env = "stub_env (Some ?r)"
  let ?ev = "post (sepia_body ''data:image/png;base64,3q0='')"
  let ?parsed = "JObj [(''imageBase64'', JStr ''data:image/png;base64,3q0=''),
                       (''instructions'', sepia)]"
  let ?req = "upstream_request ?env ?B sepia"
  have e: "base64_encode ?B = ''3q0=''" by (simp add: b64_def base64_table_def)
  have d: "base64_decode ''3q0='' = ?B" by (simp add: base64_decode_def unbase64_def)
  have 1: "httpMethod ?ev = ''POST''" by (simp add: post_simps)
  have 2: "JSON_parse ?env (body_or_default ?ev) = Some ?parsed"
    by (simp add: post_simps stub_simps stub_parse_values sepia_body_nonempty)
  have 3: "get_property ?parsed ''imageBase64'' =
             Inr (Some (JStr (''data:'' @ ''image/png'' @ '';base64,'' @ base64_encode ?B)))"
    by (simp only: e) simp
  have 4: "get_property ?parsed ''instructions'' = Inr (Some sepia)" by simp
  have 5: "truthy sepia" by (simp add: sepia_def)
  have c: "calls (handler ?env ?ev) = [?req]"
    by (rule data_url_is_forwarded [OF 1 2 3 4 5]) simp
  then have 6: "?req \<in> set (calls (handler ?env ?ev))" by simp
  have 7: "fetch ?env ?req = Some ?r" by (simp add: stub_simps)
  have 8: "resp_status ?r = 200" by (simp add: image_response_def)
  have 9: "resp_buffer ?r = Some ?B" by (simp add: image_response_def)
  have mt: "resultMimeType ?r = ''image/png''"
    by (simp add: resultMimeType_def image_response_def)
  from base64_round_trip [OF 1 2 3 4 5 6 7 8 9]
  have "response (handler ?env ?ev) =
           \<lparr>statusCode = 200, headers = [(''Content-Type'', ''application/json'')],
            body = JSON_stringify (Number_toString ?env)
                     (JObj [(''imageData'',
                             JStr (''data:'' @ resultMimeType ?r @ '';base64,''
                                   @ base64_encode ?B))])\<rparr>"
    by blast
  with c show ?thesis
    by (simp only: e d mt) (simp add: QuoteJSONString_def quote_char_def)
qed

text \<open>
  C3. For the POST body
  \<^verbatim>\<open>{ imageBase64: "data:image/png;base64,AAAA", instructions: { operation: "generative_filter", prompt: "sepia" } }\<close>,
  when the upstream answers the call with status 200, the two bytes 0xDE 0xAD and the
  content type \<^verbatim>\<open>image/png\<close>, the handler answers with status 200 and the body
  \<^verbatim>\<open>{"imageData":"data:image/png;base64,3q0="}\<close>.
\<close>

theorem sepia_scenario:
  assumes "httpMethod event = ''POST''"
    and "JSON_parse env (body_or_default event) =
           Some (JObj [(''imageBase64'', JStr ''data:image/png;base64,AAAA''),
                       (''instructions'',
                        JObj [(''operation'', JStr ''generative_filter''),
                              (''prompt'', JStr ''sepia'')])])"
    and "\<And>req. req \<in> set (calls (handler env event)) \<Longrightarrow> fetch env req = Some r"
    and "resp_status r = 200"
    and "resp_buffer r = Some [0xDE, 0xAD]"
    and "resp_content_type r = Some ''image/png''"
  shows \<open>response (handler env event) =
           \<lparr>statusCode = 200, headers = [(''Content-Type'', ''application/json'')],
            body = ''{"imageData":"data:image/png;base64,3q0="}''\<rparr>\<close>
proof -
  let ?parsed = "JObj [(''imageBase64'', JStr ''data:image/png;base64,AAAA''),
                       (''instructions'', sepia)]"
  from assms(2) have 2: "JSON_parse env (body_or_default event) = Some ?parsed"
    by (simp add: sepia_def)
  have 3: "get_property ?parsed ''imageBase64'' = Inr (Some (JStr ''data:image/png;base64,AAAA''))"
    by simp
  have 4: "get_property ?parsed ''instructions'' = Inr (Some sepia)" by simp
  have 5: "truthy sepia" by (simp add: sepia_def)
  have 6: "''AAAA'' \<noteq> []" by simp
  from handler_valid_calls [OF assms(1) 2 3 4 5 split_AAAA 6]
  have c: "upstream_request env (base64_decode ''AAAA'') sepia \<in> set (calls (handler env event))"
    by simp
  from assms(3) [OF c] have
    f: "fetch env (upstream_request env (base64_decode ''AAAA'') sepia) = Some r" .
  have ok: "200 \<le> resp_status r \<and> resp_status r < 300" using assms(4) by simp
  have \<open>fst (relay_response env r) =
      Inr \<lparr>statusCode = 200, headers = [(''Content-Type'', ''application/json'')],
           body = ''{"imageData":"data:image/png;base64,3q0="}''\<rparr>\<close>
    using assms(6)
    by (simp add: relay_success [OF ok assms(5)] resultMimeType_def
          b64_def base64_table_def QuoteJSONString_def quote_char_def)
  from handler_after_call(2) [OF c f this] show ?thesis .
qed

theorem sepia_scenario_witness:
  \<open>response (handler (stub_env (Some (image_response (Some ''image/png'') [0xDE, 0xAD])))
               (post (sepia_body ''data:image/png;base64,AAAA''))) =
     \<lparr>statusCode = 200, headers = [(''Content-Type'', ''application/json'')],
      body = ''{"imageData":"data:image/png;base64,3q0="}''\<rparr>\<close>
proof (rule sepia_scenario)
  let ?r = "image_response (Some ''image/png'') [0xDE, 0xAD]"
  let ?ev = "post (sepia_body ''data:image/png;base64,AAAA'')"
  show "httpMethod ?ev = ''POST''" by (simp add: post_simps)
  show "JSON_parse (stub_env (Some ?r)) (body_or_default ?ev) =
           Some (JObj [(''imageBase64'', JStr ''data:image/png;base64,AAAA''),
                       (''instructions'',
                        JObj [(''operation'', JStr ''generative_filter''),
                              (''prompt'', JStr ''sepia'')])])"
    by (simp add: post_simps stub_simps stub_parse_values sepia_body_nonempty sepia_def)
  show "fetch (stub_env (Some ?r)) req = Some ?r" for req by (simp add: stub_simps)
  show "resp_status ?r = 200" by (simp add: image_response_def)
  show "resp_buffer ?r = Some [0xDE, 0xAD]" by (simp add: image_response_def)
  show "resp_content_type ?r = Some ''image/png''" by (simp add: image_response_def)
qed

text \<open>
  C4. When the upstream answers the call of the handler with a status \<open>S\<close> outside
  200 to 299 and the body text \<open>T\<close>, the handler answers with status \<open>S\<close> and the
  body \<^verbatim>\<open>JSON.stringify({ error: "Claid.ai API failed: " + T })\<close>, and that call is
  the only one it issues. For status 503 and the text \<^verbatim>\<open>rate limited\<close> the body is
  \<^verbatim>\<open>{"error":"Claid.ai API failed: rate limited"}\<close>.
\<close>

theorem upstream_failure_passthrough:
  assumes "req \<in> set (calls (handler env event))"
    and "fetch env req = Some r"
    and "\<not> (200 \<le> resp_status r \<and> resp_status r < 300)"
    and "resp_text r = Some T"
  shows \<open>response (handler env event) =
           \<lparr>statusCode = resp_status r, headers = [],
            body = JSON_stringify (Number_toString env)
                     (JObj [(''error'', JStr (''Claid.ai API failed: '' @ T))])\<rparr>
         \<and> calls (handler env event) = [req]
         \<and> (resp_status r = 503 \<and> T = ''rate limited'' \<longrightarrow>
              response (handler env event) =
                \<lparr>statusCode = 503, headers = [],
                 body = ''{"error":"Claid.ai API failed: rate limited"}''\<rparr>)\<close>
proof -
  have "fst (relay_response env r) =
          Inr \<lparr>statusCode = resp_status r, headers = [],
               body = JSON_stringify (Number_toString env)
                        (JObj [(''error'', JStr (''Claid.ai API failed: '' @ T))])\<rparr>"
    using assms(3,4) by (simp add: relay_response_def response_ok_def error_body_def)
  from handler_after_call [OF assms(1,2)] this
  have r: "response (handler env event) =
           \<lparr>statusCode = resp_status r, headers = [],
            body = JSON_stringify (Number_toString env)
                     (JObj [(''error'', JStr (''Claid.ai API failed: '' @ T))])\<rparr>"
    and c: "calls (handler env event) = [req]" by simp_all
  have \<open>JSON_stringify (Number_toString env)
          (JObj [(''error'', JStr (''Claid.ai API failed: '' @ ''rate limited''))]) =
        ''{"error":"Claid.ai API failed: rate limited"}''\<close>
    by (simp add: QuoteJSONString_def quote_char_def)
  with r c show ?thesis by auto
qed

theorem upstream_failure_passthrough_witness:
  \<open>response (handler (stub_env (Some rate_limited))
               (post (sepia_body ''data:image/png;base64,AAAA'')))
   = \<lparr>statusCode = 503, headers = [],
       body = ''{"error":"Claid.ai API failed: rate limited"}''\<rparr>\<close>
proof -
  let ?env = "stub_env (Some rate_limited)"
  let ?req = "upstream_request ?env [0, 0, 0] sepia"
  let ?ev = "post (sepia_body ''data:image/png;base64,AAAA'')"
  have c: "?req \<in> set (calls (handler ?env ?ev))" by (simp add: sepia_AAAA_calls)
  have f: "fetch ?env ?req = Some rate_limited" by (simp add: stub_simps)
  have s: "\<not> (200 \<le> resp_status rate_limited \<and> resp_status rate_limited < 300)"
    by (simp add: rate_limited_def)
  have t: "resp_text rate_limited = Some ''rate limited''" by (simp add: rate_limited_def)
  have st: "resp_status rate_limited = 503 \<and> ''rate limited'' = ''rate limited''"
    by (simp add: rate_limited_def)
  from upstream_failure_passthrough [OF c f s t] st show ?thesis by blast
qed

text \<open>
  C5, as stated, fails: when the upstream sends a content-type header with the empty
  value, the header is present, but the MIME type of the data URL is \<^verbatim>\<open>image/png\<close>,
  not the header's value.
\<close>

theorem empty_content_type_gives_png:
  \<open>resp_content_type (image_response (Some []) [0xDE, 0xAD]) = Some []
   \<and> response (handler (stub_env (Some (image_response (Some []) [0xDE, 0xAD])))
                 (post (sepia_body ''data:image/png;base64,AAAA''))) =
       \<lparr>statusCode = 200, headers = [(''Content-Type'', ''application/json'')],
        body = ''{"imageData":"data:image/png;base64,3q0="}''\<rparr>\<close>
proof -
  let ?r = "image_response (Some []) [0xDE, 0xAD]"
  let ?env = "stub_env (Some ?r)"
  let ?req = "upstream_request ?env [0, 0, 0] sepia"
  let ?ev = "post (sepia_body ''data:image/png;base64,AAAA'')"
  have c: "?req \<in> set (calls (handler ?env ?ev))" by (simp add: sepia_AAAA_calls)
  have f: "fetch ?env ?req = Some ?r" by (simp add: stub_simps)
  have "relay_response ?env ?r =
          (Inr \<lparr>statusCode = 200, headers = [(''Content-Type'', ''application/json'')],
                 body = JSON_stringify (Number_toString ?env)
                          (JObj [(''imageData'',
                                  JStr (''data:'' @ resultMimeType ?r @ '';base64,''
                                        @ base64_encode [0xDE, 0xAD]))])\<rparr>, [])"
    by (rule relay_success) (simp_all add: image_response_def)
  moreover have "resultMimeType ?r = ''image/png''"
    by (simp add: resultMimeType_def image_response_def)
  ultimately have \<open>fst (relay_response ?env ?r) =
      Inr \<lparr>statusCode = 200, headers = [(''Content-Type'', ''application/json'')],
           body = ''{"imageData":"data:image/png;base64,3q0="}''\<rparr>\<close>
    by (simp add: b64_def base64_table_def QuoteJSONString_def quote_char_def)
  from handler_after_call(2) [OF c f this] show ?thesis
    by (simp add: image_response_def)
qed

text \<open>
  C5, amended. For every successful (2xx) upstream response whose body can be read, the
  MIME type of the returned data URL is the value of the content-type header when the
  header is present and not empty, and \<^verbatim>\<open>image/png\<close> when the header is absent or
  empty. With the content type \<^verbatim>\<open>image/jpeg\<close> the data URL begins with
  \<^verbatim>\<open>data:image/jpeg;base64,\<close>.
\<close>

theorem result_mime_type:
  assumes "req \<in> set (calls (handler env event))"
    and "fetch env req = Some r"
    and "200 \<le> resp_status r \<and> resp_status r < 300"
    and "resp_buffer r = Some resultBuffer"
  shows "(\<forall>m. resp_content_type r = Some m \<and> m \<noteq> [] \<longrightarrow>
            response (handler env event) =
              \<lparr>statusCode = 200, headers = [(''Content-Type'', ''application/json'')],
               body = JSON_stringify (Number_toString env)
                        (JObj [(''imageData'',
                                JStr (''data:'' @ m @ '';base64,''
                                      @ base64_encode resultBuffer))])\<rparr>)
         \<and> (resp_content_type r = None \<or> resp_content_type r = Some [] \<longrightarrow>
            response (handler env event) =
              \<lparr>statusCode = 200, headers = [(''Content-Type'', ''application/json'')],
               body = JSON_stringify (Number_toString env)
                        (JObj [(''imageData'',
                                JStr (''data:image/png;base64,''
                                      @ base64_encode resultBuffer))])\<rparr>)
         \<and> (resp_content_type r = Some ''image/jpeg'' \<longrightarrow>
            (\<exists>imageData.
               body (response (handler env event)) =
                 JSON_stringify (Number_toString env) (JObj [(''imageData'', JStr imageData)])
               \<and> prefix ''data:image/jpeg;base64,'' imageData))"
proof -
  from relay_success [OF assms(3,4), of env] handler_after_call(2) [OF assms(1,2)]
  have r: "response (handler env event) =
            \<lparr>statusCode = 200, headers = [(''Content-Type'', ''application/json'')],
              body = JSON_stringify (Number_toString env)
                       (JObj [(''imageData'',
                               JStr (''data:'' @ resultMimeType r @ '';base64,''
                                     @ base64_encode resultBuffer))])\<rparr>"
    by simp
  have 1: "resultMimeType r = m" if "resp_content_type r = Some m" "m \<noteq> []" for m
    using that by (simp add: resultMimeType_def)
  have 2: "resultMimeType r = ''image/png''"
    if "resp_content_type r = None \<or> resp_content_type r = Some []"
    using that by (auto simp: resultMimeType_def)
  have 3: "\<exists>imageData.
               body (response (handler env event)) =
                 JSON_stringify (Number_toString env) (JObj [(''imageData'', JStr imageData)])
               \<and> prefix ''data:image/jpeg;base64,'' imageData"
    if j: "resp_content_type r = Some ''image/jpeg''"
  proof (intro exI conjI)
    from j have "resultMimeType r = ''image/jpeg''" by (simp add: resultMimeType_def)
    with r show "body (response (handler env event)) =
        JSON_stringify (Number_toString env)
          (JObj [(''imageData'', JStr (''data:image/jpeg;base64,'' @ base64_encode resultBuffer))])"
      by simp
    show "prefix ''data:image/jpeg;base64,'' (''data:image/jpeg;base64,'' @ base64_encode resultBuffer)"
      by (rule prefixI) simp
  qed
  show ?thesis
  proof (intro conjI allI impI)
    fix m assume "resp_content_type r = Some m \<and> m \<noteq> []"
    with 1 have "resultMimeType r = m" by blast
    with r show "response (handler env event) =
              \<lparr>statusCode = 200, headers = [(''Content-Type'', ''application/json'')],
               body = JSON_stringify (Number_toString env)
                        (JObj [(''imageData'',
                                JStr (''data:'' @ m @ '';base64,''
                                      @ base64_encode resultBuffer))])\<rparr>"
      by simp
  next
    assume "resp_content_type r = None \<or> resp_content_type r = Some []"
    with 2 have "resultMimeType r = ''image/png''" by blast
    with r show "response (handler env event) =
              \<lparr>statusCode = 200, headers = [(''Content-Type'', ''application/json'')],
               body = JSON_stringify (Number_toString env)
                        (JObj [(''imageData'',
                                JStr (''data:image/png;base64,''
                                      @ base64_encode resultBuffer))])\<rparr>"
      by simp
  next
    assume "resp_content_type r = Some ''image/jpeg''"
    then show "\<exists>imageData.
               body (response (handler env event)) =
                 JSON_stringify (Number_toString env) (JObj [(''imageData'', JStr imageData)])
               \<and> prefix ''data:image/jpeg;base64,'' imageData"
      by (rule 3)
  qed
qed

theorem result_mime_type_witness:
  \<open>response (handler (stub_env (Some (image_response (Some ''image/jpeg'') [0xDE, 0xAD])))
               (post (sepia_body ''data:image/png;base64,AAAA''))) =
     \<lparr>statusCode = 200, headers = [(''Content-Type'', ''application/json'')],
      body = ''{"imageData":"data:image/jpeg;base64,3q0="}''\<rparr>
   \<and> response (handler (stub_env (Some (image_response None [0xDE, 0xAD])))
               (post (sepia_body ''data:image/png;base64,AAAA''))) =
     \<lparr>statusCode = 200, headers = [(''Content-Type'', ''application/json'')],
      body = ''{"imageData":"data:image/png;base64,3q0="}''\<rparr>\<close>
proof -
  let ?ev = "post (sepia_body ''data:image/png;base64,AAAA'')"
  let ?j = "image_response (Some ''image/jpeg'') [0xDE, 0xAD]"
  let ?n = "image_response None [0xDE, 0xAD]"
  have cj: "upstream_request (stub_env (Some ?j)) [0, 0, 0] sepia
              \<in> set (calls (handler (stub_env (Some ?j)) ?ev))"
    by (simp add: sepia_AAAA_calls)
  have cn: "upstream_request (stub_env (Some ?n)) [0, 0, 0] sepia
              \<in> set (calls (handler (stub_env (Some ?n)) ?ev))"
    by (simp add: sepia_AAAA_calls)
  have fj: "fetch (stub_env (Some ?j)) (upstream_request (stub_env (Some ?j)) [0, 0, 0] sepia)
              = Some ?j" by (simp add: stub_simps)
  have fn: "fetch (stub_env (Some ?n)) (upstream_request (stub_env (Some ?n)) [0, 0, 0] sepia)
              = Some ?n" by (simp add: stub_simps)
  have sj: "200 \<le> resp_status ?j \<and> resp_status ?j < 300" by (simp add: image_response_def)
  have sn: "200 \<le> resp_status ?n \<and> resp_status ?n < 300" by (simp add: image_response_def)
  have bj: "resp_buffer ?j = Some [0xDE, 0xAD]" by (simp add: image_response_def)
  have bn: "resp_buffer ?n = Some [0xDE, 0xAD]" by (simp add: image_response_def)
  have hj: "resp_content_type ?j = Some ''image/jpeg'' \<and> ''image/jpeg'' \<noteq> []"
    by (simp add: image_response_def)
  have hn: "resp_content_type ?n = None \<or> resp_content_type ?n = Some []"
    by (simp add: image_response_def)
  from result_mime_type [OF cj fj sj bj] hj
  have "response (handler (stub_env (Some ?j)) ?ev) =
          \<lparr>statusCode = 200, headers = [(''Content-Type'', ''application/json'')],
           body = JSON_stringify (Number_toString (stub_env (Some ?j)))
                    (JObj [(''imageData'',
                            JStr (''data:'' @ ''image/jpeg'' @ '';base64,''
                                  @ base64_encode [0xDE, 0xAD]))])\<rparr>"
    by blast
  moreover from result_mime_type [OF cn fn sn bn] hn
  have "response (handler (stub_env (Some ?n)) ?ev) =
          \<lparr>statusCode = 200, headers = [(''Content-Type'', ''application/json'')],
           body = JSON_stringify (Number_toString (stub_env (Some ?n)))
                    (JObj [(''imageData'',
                            JStr (''data:image/png;base64,'' @ base64_encode [0xDE, 0xAD]))])\<rparr>"
    by blast
  ultimately show ?thesis
    by (simp add: b64_def base64_table_def QuoteJSONString_def quote_char_def)
qed

text \<open>
  C6, as stated, fails: the body \<^verbatim>\<open>null\<close> parses as JSON and has neither field, but
  destructuring \<^verbatim>\<open>null\<close> throws a TypeError, and the handler answers 500.
\<close>

theorem null_body_is_internal_error:
  \<open>stub_parse ''null'' = Some JNull
   \<and> handler (stub_env None) (post ''null'') =
       \<lparr>response = \<lparr>statusCode = 500, headers = [],
          body = ''{"error":"An internal error occurred in the proxy function."}''\<rparr>,
        calls = [], log = [ProxyError TypeError]\<rparr>\<close>
  by (simp add: handler_post handler_try_def post_simps stub_simps stub_parse_values)

text \<open>
  C6, amended. For every POST request whose body parses to a JSON value other than
  \<^verbatim>\<open>null\<close> in which \<^verbatim>\<open>imageBase64\<close> or \<^verbatim>\<open>instructions\<close> is missing, the handler
  answers 400 with \<^verbatim>\<open>{"error":"Missing imageBase64 or instructions in request body"}\<close>
  and issues no outbound call.
\<close>

theorem missing_field_400:
  assumes "httpMethod event = ''POST''"
    and "JSON_parse env (body_or_default event) = Some parsed"
    and "parsed \<noteq> JNull"
    and "get_property parsed ''imageBase64'' = Inr None
         \<or> get_property parsed ''instructions'' = Inr None"
  shows \<open>handler env event =
           \<lparr>response = \<lparr>statusCode = 400, headers = [],
              body = ''{"error":"Missing imageBase64 or instructions in request body"}''\<rparr>,
            calls = [], log = []\<rparr>\<close>
proof -
  from assms(3) obtain i j where
    ij: "get_property parsed ''imageBase64'' = Inr i" "get_property parsed ''instructions'' = Inr j"
    by (cases parsed) simp_all
  with assms(4) have "\<not> (truthy_opt i \<and> truthy_opt j)" by auto
  with handler_try_fields [OF assms(2) ij] assms(1) show ?thesis
    by (simp add: handler_post)
qed

theorem missing_field_400_witness:
  \<open>handler (stub_env None) (post ''{}'') =
       \<lparr>response = \<lparr>statusCode = 400, headers = [],
          body = ''{"error":"Missing imageBase64 or instructions in request body"}''\<rparr>,
        calls = [], log = []\<rparr>\<close>
proof -
  have p: "httpMethod (post ''{}'') = ''POST''" by (simp add: post_simps)
  have q: "JSON_parse (stub_env None) (body_or_default (post ''{}'')) = Some (JObj [])"
    by (simp add: post_simps stub_simps stub_parse_values)
  have n: "JObj [] \<noteq> JNull" by simp
  have m: "get_property (JObj []) ''imageBase64'' = Inr None
           \<or> get_property (JObj []) ''instructions'' = Inr None" by simp
  from missing_field_400 [OF p q n m] show ?thesis .
qed

text \<open>
  C7. A request whose method is not POST is answered with status 405 and the body
  \<^verbatim>\<open>{"error":"Method Not Allowed"}\<close>, with no outbound call and no log line. The
  outcome is the same for every environment and every event of that method: neither the
  body of the request nor \<^verbatim>\<open>JSON.parse\<close> has a part in it.
\<close>

theorem non_post_405:
  assumes "httpMethod event \<noteq> ''POST''"
  shows \<open>handler env event =
           \<lparr>response = \<lparr>statusCode = 405, headers = [],
                         body = ''{"error":"Method Not Allowed"}''\<rparr>,
            calls = [], log = []\<rparr>
         \<and> (\<forall>env' event'. httpMethod event' = httpMethod event
               \<longrightarrow> handler env' event' = handler env event)\<close>
  using assms by (simp add: handler_def error_texts)

theorem non_post_405_witness:
  \<open>handler (stub_env None) \<lparr>httpMethod = ''GET'', event_body = Some ''not json''\<rparr> =
     \<lparr>response = \<lparr>statusCode = 405, headers = [],
                   body = ''{"error":"Method Not Allowed"}''\<rparr>,
      calls = [], log = []\<rparr>
   \<and> handler (stub_env None) \<lparr>httpMethod = ''GET'', event_body = None\<rparr> =
     handler (stub_env None) \<lparr>httpMethod = ''GET'', event_body = Some ''not json''\<rparr>\<close>
proof -
  let ?ev = "\<lparr>httpMethod = ''GET'', event_body = Some ''not json''\<rparr>"
  have m: "httpMethod ?ev \<noteq> ''POST''" by simp
  from non_post_405 [OF m, of "stub_env None"] show ?thesis by simp
qed

text \<open>
  C8. When a step of the \<^verbatim>\<open>try\<close> block of a POST request throws, the handler
  answers with status 500 and the body
  \<^verbatim>\<open>{"error":"An internal error occurred in the proxy function."}\<close>, and logs the
  error. The steps that throw are listed in \<open>handler_try_throws\<close>. The handler is a
  total function into outcomes: it has no way to pass the exception on.
\<close>

theorem thrown_error_500:
  assumes "httpMethod event = ''POST''"
    and "fst (handler_try env event) = Inl e"
  shows \<open>response (handler env event) =
           \<lparr>statusCode = 500, headers = [],
            body = ''{"error":"An internal error occurred in the proxy function."}''\<rparr>
         \<and> log (handler env event) = snd (snd (handler_try env event)) @ [ProxyError e]\<close>
  using assms by (simp add: handler_post)

theorem thrown_error_500_witness:
  \<open>fst (handler_try (stub_env None) (post ''not json'')) = Inl SyntaxError
   \<and> response (handler (stub_env None) (post ''not json'')) =
       \<lparr>statusCode = 500, headers = [],
        body = ''{"error":"An internal error occurred in the proxy function."}''\<rparr>\<close>
proof -
  have p: "httpMethod (post ''not json'') = ''POST''" by (simp add: post_def)
  have t: "fst (handler_try (stub_env None) (post ''not json'')) = Inl SyntaxError"
    by (simp add: handler_try_def post_simps stub_simps stub_parse_values)
  from thrown_error_500 [OF p t] t show ?thesis by simp
qed

text \<open>
  C9. For every POST request that passes the checks (both fields truthy,
  \<^verbatim>\<open>imageBase64\<close> a string, a non-empty text behind its last \<^verbatim>\<open>;base64,\<close>), the
  handler issues exactly one request: a POST to the fixed URL, with the header
  \<^verbatim>\<open>Authorization: Claid-API-Key\<close> followed by the static key and the content-type
  header of the form encoder, and a form of exactly two fields: \<^verbatim>\<open>source_image\<close> with
  the decoded bytes, the filename \<^verbatim>\<open>upload.png\<close> and the content type
  \<^verbatim>\<open>image/png\<close>, and \<^verbatim>\<open>instructions\<close> with the JSON text of the instructions.
\<close>

theorem outbound_request_shape:
  assumes "httpMethod event = ''POST''"
    and "JSON_parse env (body_or_default event) = Some parsed"
    and "get_property parsed ''imageBase64'' = Inr (Some (JStr s))"
    and "get_property parsed ''instructions'' = Inr (Some instructions)"
    and "truthy instructions"
    and "Array_pop (String_split s '';base64,'') = Some base64Data"
    and "base64Data \<noteq> []"
  shows "calls (handler env event) =
           [\<lparr>req_url = CLAID_API_BASE_URL, req_method = ''POST'',
             req_headers =
               [(''Authorization'', ''Claid-API-Key '' @ CLAID_API_KEY),
                (''content-type'', ''multipart/form-data; boundary='' @ boundary env)],
             req_body =
               \<lparr>form_boundary = boundary env,
                form_fields =
                  [\<lparr>field_name = ''source_image'',
                    field_value = BufferValue (base64_decode base64Data),
                    field_filename = Some ''upload.png'',
                    field_contentType = Some ''image/png''\<rparr>,
                   \<lparr>field_name = ''instructions'',
                    field_value =
                      StringValue (JSON_stringify (Number_toString env) instructions),
                    field_filename = None, field_contentType = None\<rparr>]\<rparr>\<rparr>]"
  using handler_valid_calls [OF assms]
  by (simp add: upstream_request_def FormData_append_def FormData_getHeaders_def)

theorem outbound_request_shape_witness:
  \<open>calls (handler (stub_env None) (post (sepia_body ''data:image/png;base64,AAAA''))) =
     [\<lparr>req_url = ''https://api.claid.ai/v1/image-processing'', req_method = ''POST'',
       req_headers =
         [(''Authorization'', ''Claid-API-Key b075a8d36b374209ac11df342fe68a73''),
          (''content-type'',
           ''multipart/form-data; boundary=--------------------------000000000000000000000000'')],
       req_body =
         \<lparr>form_boundary = ''--------------------------000000000000000000000000'',
          form_fields =
            [\<lparr>field_name = ''source_image'', field_value = BufferValue [0, 0, 0],
              field_filename = Some ''upload.png'', field_contentType = Some ''image/png''\<rparr>,
             \<lparr>field_name = ''instructions'',
              field_value = StringValue ''{"operation":"generative_filter","prompt":"sepia"}'',
              field_filename = None, field_contentType = None\<rparr>]\<rparr>\<rparr>]\<close>
proof -
  let ?ev = "post (sepia_body ''data:image/png;base64,AAAA'')"
  let ?parsed = "JObj [(''imageBase64'', JStr ''data:image/png;base64,AAAA''),
                       (''instructions'', sepia)]"
  have 1: "httpMethod ?ev = ''POST''" by (simp add: post_simps)
  have 2: "JSON_parse (stub_env None) (body_or_default ?ev) = Some ?parsed"
    by (simp add: post_simps stub_simps stub_parse_values sepia_body_nonempty)
  have 3: "get_property ?parsed ''imageBase64'' = Inr (Some (JStr ''data:image/png;base64,AAAA''))"
    by simp
  have 4: "get_property ?parsed ''instructions'' = Inr (Some sepia)" by simp
  have 5: "truthy sepia" by (simp add: sepia_def)
  have 6: "''AAAA'' \<noteq> []" by simp
  from outbound_request_shape [OF 1 2 3 4 5 split_AAAA 6] show ?thesis
    by (simp add: stub_simps decode_AAAA sepia_text CLAID_API_BASE_URL_def CLAID_API_KEY_def)
qed

text \<open>
  C10. The presence check is on truthiness. When the parsed body is an object in which
  \<^verbatim>\<open>imageBase64\<close> or \<^verbatim>\<open>instructions\<close> is present with a falsy value, the handler
  answers 400 with \<^verbatim>\<open>{"error":"Missing imageBase64 or instructions in request body"}\<close>
  and issues no call; this is the outcome of every POST request whose object lacks one
  of the two fields. The empty string, 0, \<^verbatim>\<open>false\<close> and \<^verbatim>\<open>null\<close> are falsy.
\<close>

theorem falsy_field_counts_as_missing:
  assumes "httpMethod event = ''POST''"
    and "JSON_parse env (body_or_default event) = Some (JObj kvs)"
    and "(\<exists>v. map_of kvs ''imageBase64'' = Some v \<and> \<not> truthy v)
         \<or> (\<exists>v. map_of kvs ''instructions'' = Some v \<and> \<not> truthy v)"
  shows \<open>handler env event =
           \<lparr>response = \<lparr>statusCode = 400, headers = [],
              body = ''{"error":"Missing imageBase64 or instructions in request body"}''\<rparr>,
            calls = [], log = []\<rparr>
         \<and> (\<forall>env' event' kvs'.
               httpMethod event' = ''POST''
               \<and> JSON_parse env' (body_or_default event') = Some (JObj kvs')
               \<and> (map_of kvs' ''imageBase64'' = None \<or> map_of kvs' ''instructions'' = None)
               \<longrightarrow> handler env' event' = handler env event)
         \<and> \<not> truthy (JStr []) \<and> \<not> truthy (JNum (Finite 0)) \<and> \<not> truthy (JBool False)
         \<and> \<not> truthy JNull\<close>
proof -
  have missing: \<open>handler env' event' =
           \<lparr>response = \<lparr>statusCode = 400, headers = [],
              body = ''{"error":"Missing imageBase64 or instructions in request body"}''\<rparr>,
            calls = [], log = []\<rparr>\<close>
    if "httpMethod event' = ''POST''"
      and "JSON_parse env' (body_or_default event') = Some (JObj kvs')"
      and "\<not> truthy_opt (map_of kvs' ''imageBase64'') \<or> \<not> truthy_opt (map_of kvs' ''instructions'')"
    for env' event' kvs'
  proof -
    have \<open>handler_try env' event' =
            (Inr \<lparr>statusCode = 400, headers = [],
               body = ''{"error":"Missing imageBase64 or instructions in request body"}''\<rparr>, [], [])\<close>
      using that(2,3)
        handler_try_fields [of env' event' "JObj kvs'" "map_of kvs' ''imageBase64''"
          "map_of kvs' ''instructions''"]
      by auto
    with that(1) show ?thesis by (simp add: handler_post)
  qed
  from assms(3) have
    "\<not> truthy_opt (map_of kvs ''imageBase64'') \<or> \<not> truthy_opt (map_of kvs ''instructions'')"
    by auto
  from missing [OF assms(1,2) this] missing show ?thesis by auto
qed

theorem falsy_field_counts_as_missing_witness:
  \<open>stub_parse ''{"imageBase64":"data:image/png;base64,AAAA","instructions":0}'' =
      Some (JObj [(''imageBase64'', JStr ''data:image/png;base64,AAAA''),
                  (''instructions'', JNum (Finite 0))])
   \<and> handler (stub_env None)
        (post ''{"imageBase64":"data:image/png;base64,AAAA","instructions":0}'') =
       \<lparr>response = \<lparr>statusCode = 400, headers = [],
          body = ''{"error":"Missing imageBase64 or instructions in request body"}''\<rparr>,
        calls = [], log = []\<rparr>
   \<and> handler (stub_env None) (post ''{}'') =
       handler (stub_env None)
         (post ''{"imageBase64":"data:image/png;base64,AAAA","instructions":0}'')\<close>
proof -
  let ?b = \<open>''{"imageBase64":"data:image/png;base64,AAAA","instructions":0}''\<close>
  let ?kvs = "[(''imageBase64'', JStr ''data:image/png;base64,AAAA''),
               (''instructions'', JNum (Finite 0))]"
  have p: "httpMethod (post ?b) = ''POST''" by (simp add: post_simps)
  have q: "stub_parse ?b = Some (JObj ?kvs)" by (simp add: stub_parse_values)
  then have q': "JSON_parse (stub_env None) (body_or_default (post ?b)) = Some (JObj ?kvs)"
    by (simp add: post_simps stub_simps)
  have f: "(\<exists>v. map_of ?kvs ''imageBase64'' = Some v \<and> \<not> truthy v)
         \<or> (\<exists>v. map_of ?kvs ''instructions'' = Some v \<and> \<not> truthy v)" by simp
  have e: "httpMethod (post ''{}'') = ''POST''
           \<and> JSON_parse (stub_env None) (body_or_default (post ''{}'')) = Some (JObj [])
           \<and> (map_of [] ''imageBase64'' = (None :: js_value option)
              \<or> map_of [] ''instructions'' = (None :: js_value option))"
    by (simp add: post_simps stub_simps stub_parse_values)
  from falsy_field_counts_as_missing [OF p q' f] e q show ?thesis by blast
qed

end
